theory Spec2Isabelle
  imports Complex_Main
begin

section \<open>The framework's primitives\<close>

text \<open>
  The script \<^verbatim>\<open>Framework/framework_add_batchnorm.py\<close> is glue over a deep-learning
  framework. The numeric kernels of the framework (convolution, pooling, normalisation,
  cross entropy, automatic differentiation, random numbers) are not code of the script:
  they are the fields of a record that every function of the embedding takes as its
  first argument. A tensor is an element of a real vector space \<open>'t\<close> (floating point is
  idealised to the reals), a generator state is a value of \<open>'g\<close>. What the framework's
  modules do with their own state (the \<open>training\<close> flag, the running statistics of batch
  normalisation, the \<open>.grad\<close> field of a parameter, the momentum buffers of the
  optimiser) is written out below.
\<close>

datatype error = RuntimeError | ZeroDivisionError | ValueError

record ('t, 'g) backend =
  op_conv2d :: "'t \<Rightarrow> 't \<Rightarrow> nat \<Rightarrow> 't \<Rightarrow> 't"
  op_relu :: "'t \<Rightarrow> 't"
  op_max_pool2d :: "nat \<Rightarrow> nat \<Rightarrow> 't \<Rightarrow> 't"
  op_flatten :: "'t \<Rightarrow> 't"
  op_linear :: "'t \<Rightarrow> 't \<Rightarrow> 't \<Rightarrow> 't"
  op_batch_stats :: "'t list \<Rightarrow> 't \<times> 't"
  op_normalize :: "'t \<Rightarrow> 't \<Rightarrow> 't \<Rightarrow> 't \<Rightarrow> real \<Rightarrow> 't \<Rightarrow> 't"
  op_running_update :: "real \<Rightarrow> 't \<times> 't \<Rightarrow> 't list \<Rightarrow> 't \<times> 't"
  op_dropout :: "real \<Rightarrow> 'g \<Rightarrow> 't \<Rightarrow> 't \<times> 'g"
  op_cross_entropy :: "'t list \<Rightarrow> nat list \<Rightarrow> real"
  op_argmax :: "'t \<Rightarrow> nat"
  op_backward :: "((nat \<Rightarrow> 't) \<Rightarrow> real) \<Rightarrow> (nat \<Rightarrow> 't) \<Rightarrow> nat \<Rightarrow> 't"
  op_randperm :: "'g \<Rightarrow> nat \<Rightarrow> nat list \<times> 'g"
  op_init :: "'g \<Rightarrow> (string \<Rightarrow> 't) \<times> 'g"
  op_manual_seed :: "int \<Rightarrow> 'g"

section \<open>Modules\<close>

text \<open>A parameter is a tensor with its accumulated gradient (\<open>None\<close> until the first
  backward pass).\<close>

record 't Parameter =
  p_data :: 't
  p_grad :: "'t option"

record 't Conv2d =
  in_channels :: nat
  out_channels :: nat
  kernel_size :: nat
  padding :: nat
  conv_weight :: "'t Parameter"
  conv_bias :: "'t Parameter"

record MaxPool2d =
  pool_kernel :: nat
  pool_stride :: nat

record 't Linear =
  in_features :: nat
  out_features :: nat
  lin_weight :: "'t Parameter"
  lin_bias :: "'t Parameter"

record Dropout2d =
  drop_p :: real

record 't BatchNorm2d =
  num_features :: nat
  bn_eps :: real
  bn_momentum :: real
  bn_weight :: "'t Parameter"
  bn_bias :: "'t Parameter"
  running_mean :: 't
  running_var :: 't
  num_batches_tracked :: nat

definition new_Parameter :: "'t \<Rightarrow> 't Parameter" where
  "new_Parameter v = \<lparr>p_data = v, p_grad = None\<rparr>"

definition nn_Conv2d :: "(string \<Rightarrow> 't) \<Rightarrow> string \<Rightarrow> nat \<Rightarrow> nat \<Rightarrow> nat \<Rightarrow> nat \<Rightarrow> 't Conv2d" where
  "nn_Conv2d init name cin cout k pad =
     \<lparr>in_channels = cin, out_channels = cout, kernel_size = k, padding = pad,
      conv_weight = new_Parameter (init (name @ ''.weight'')),
      conv_bias = new_Parameter (init (name @ ''.bias''))\<rparr>"

definition nn_Linear :: "(string \<Rightarrow> 't) \<Rightarrow> string \<Rightarrow> nat \<Rightarrow> nat \<Rightarrow> 't Linear" where
  "nn_Linear init name fin fout =
     \<lparr>in_features = fin, out_features = fout,
      lin_weight = new_Parameter (init (name @ ''.weight'')),
      lin_bias = new_Parameter (init (name @ ''.bias''))\<rparr>"

text \<open>\<^verbatim>\<open>nn.BatchNorm2d(num_features)\<close>: \<open>eps = 1e-5\<close>, \<open>momentum = 0.1\<close>, running statistics
  tracked, the batch counter at 0.\<close>

definition nn_BatchNorm2d :: "(string \<Rightarrow> 't) \<Rightarrow> string \<Rightarrow> nat \<Rightarrow> 't BatchNorm2d" where
  "nn_BatchNorm2d init name n =
     \<lparr>num_features = n, bn_eps = 1 / 100000, bn_momentum = 1 / 10,
      bn_weight = new_Parameter (init (name @ ''.weight'')),
      bn_bias = new_Parameter (init (name @ ''.bias'')),
      running_mean = init (name @ ''.running_mean''),
      running_var = init (name @ ''.running_var''),
      num_batches_tracked = 0\<rparr>"

text \<open>Calling a module on a batch (a list of per-sample tensors). Convolution, pooling
  and the linear map act on each sample; batch normalisation in training mode counts the
  batch, normalises with the statistics of the batch and moves the running statistics,
  and in evaluation mode normalises with the running statistics and changes nothing;
  dropout in training mode draws from the generator and is the identity otherwise.\<close>

definition Conv2d_call :: "('t, 'g) backend \<Rightarrow> 't Conv2d \<Rightarrow> 't list \<Rightarrow> 't list" where
  "Conv2d_call tb c xs =
     map (op_conv2d tb (p_data (conv_weight c)) (p_data (conv_bias c)) (padding c)) xs"

definition MaxPool2d_call :: "('t, 'g) backend \<Rightarrow> MaxPool2d \<Rightarrow> 't list \<Rightarrow> 't list" where
  "MaxPool2d_call tb mp xs = map (op_max_pool2d tb (pool_kernel mp) (pool_stride mp)) xs"

definition Linear_call :: "('t, 'g) backend \<Rightarrow> 't Linear \<Rightarrow> 't list \<Rightarrow> 't list" where
  "Linear_call tb l xs = map (op_linear tb (p_data (lin_weight l)) (p_data (lin_bias l))) xs"

definition BatchNorm2d_call ::
  "('t, 'g) backend \<Rightarrow> bool \<Rightarrow> 't BatchNorm2d \<Rightarrow> 't list \<Rightarrow> 't list \<times> 't BatchNorm2d" where
  "BatchNorm2d_call tb train bn xs =
     (if train then
        (let (mean, var) = op_batch_stats tb xs;
             (rm, rv) = op_running_update tb (bn_momentum bn) (running_mean bn, running_var bn) xs
         in (map (op_normalize tb mean var (p_data (bn_weight bn)) (p_data (bn_bias bn)) (bn_eps bn)) xs,
             bn\<lparr>num_batches_tracked := num_batches_tracked bn + 1,
                running_mean := rm, running_var := rv\<rparr>))
      else
        (map (op_normalize tb (running_mean bn) (running_var bn)
                (p_data (bn_weight bn)) (p_data (bn_bias bn)) (bn_eps bn)) xs, bn))"

fun dropout_samples :: "('t, 'g) backend \<Rightarrow> real \<Rightarrow> 'g \<Rightarrow> 't list \<Rightarrow> 't list \<times> 'g" where
  "dropout_samples tb p g [] = ([], g)"
| "dropout_samples tb p g (x # xs) =
     (let (y, g1) = op_dropout tb p g x; (ys, g2) = dropout_samples tb p g1 xs
      in (y # ys, g2))"

definition Dropout2d_call ::
  "('t, 'g) backend \<Rightarrow> bool \<Rightarrow> Dropout2d \<Rightarrow> 'g \<Rightarrow> 't list \<Rightarrow> 't list \<times> 'g" where
  "Dropout2d_call tb train d g xs =
     (if train then dropout_samples tb (drop_p d) g xs else (xs, g))"

section \<open>The model\<close>

record 't CIFAR10Model =
  conv1 :: "'t Conv2d"
  conv2 :: "'t Conv2d"
  maxpool1 :: MaxPool2d
  conv3 :: "'t Conv2d"
  conv4 :: "'t Conv2d"
  conv5 :: "'t Conv2d"
  conv6 :: "'t Conv2d"
  linear1 :: "'t Linear"
  linear2 :: "'t Linear"
  dropout1 :: Dropout2d
  bn1 :: "'t BatchNorm2d"
  bn2 :: "'t BatchNorm2d"
  bn3 :: "'t BatchNorm2d"
  training :: bool

definition input_size :: nat where
  "input_size = 3 * 32 * 32"

definition output_size :: nat where
  "output_size = 10"

text \<open>\<^verbatim>\<open>CIFAR10Model.__init__\<close>. The initial value of each tensor is drawn by the
  framework; here it is read from \<open>init\<close> under the tensor's name. A new module is in
  training mode, and nothing in the script ever changes the mode.\<close>

definition new_CIFAR10Model :: "(string \<Rightarrow> 't) \<Rightarrow> 't CIFAR10Model" where
  "new_CIFAR10Model init =
     \<lparr>conv1 = nn_Conv2d init ''conv1'' 3 9 3 1,
      conv2 = nn_Conv2d init ''conv2'' 9 9 3 1,
      maxpool1 = \<lparr>pool_kernel = 2, pool_stride = 2\<rparr>,
      conv3 = nn_Conv2d init ''conv3'' 9 18 3 1,
      conv4 = nn_Conv2d init ''conv4'' 18 18 3 1,
      conv5 = nn_Conv2d init ''conv5'' 18 36 3 1,
      conv6 = nn_Conv2d init ''conv6'' 36 36 3 1,
      linear1 = nn_Linear init ''linear1'' 576 100,
      linear2 = nn_Linear init ''linear2'' 100 output_size,
      dropout1 = \<lparr>drop_p = 1 / 2\<rparr>,
      bn1 = nn_BatchNorm2d init ''bn1'' 9,
      bn2 = nn_BatchNorm2d init ''bn2'' 18,
      bn3 = nn_BatchNorm2d init ''bn3'' 36,
      training = True\<rparr>"

definition call_bn1 :: "('t, 'g) backend \<Rightarrow> 't CIFAR10Model \<Rightarrow> 't list \<Rightarrow> 't list \<times> 't CIFAR10Model" where
  "call_bn1 tb self xs =
     (let (ys, b) = BatchNorm2d_call tb (training self) (bn1 self) xs in (ys, self\<lparr>bn1 := b\<rparr>))"

definition call_bn2 :: "('t, 'g) backend \<Rightarrow> 't CIFAR10Model \<Rightarrow> 't list \<Rightarrow> 't list \<times> 't CIFAR10Model" where
  "call_bn2 tb self xs =
     (let (ys, b) = BatchNorm2d_call tb (training self) (bn2 self) xs in (ys, self\<lparr>bn2 := b\<rparr>))"

definition call_bn3 :: "('t, 'g) backend \<Rightarrow> 't CIFAR10Model \<Rightarrow> 't list \<Rightarrow> 't list \<times> 't CIFAR10Model" where
  "call_bn3 tb self xs =
     (let (ys, b) = BatchNorm2d_call tb (training self) (bn3 self) xs in (ys, self\<lparr>bn3 := b\<rparr>))"

text \<open>\<^verbatim>\<open>CIFAR10Model.forward\<close>, statement by statement. The model and the generator are
  returned with the output, since batch normalisation and dropout may change them.\<close>

definition forward ::
  "('t, 'g) backend \<Rightarrow> 't CIFAR10Model \<Rightarrow> 'g \<Rightarrow> 't list \<Rightarrow> 't list \<times> 't CIFAR10Model \<times> 'g" where
  "forward tb self g xb =
     (let out = xb;
          out = Conv2d_call tb (conv1 self) out;
          out = map (op_relu tb) out;
          (out, self) = call_bn1 tb self out;
          out = Conv2d_call tb (conv2 self) out;
          out = map (op_relu tb) out;
          (out, self) = call_bn1 tb self out;
          out = MaxPool2d_call tb (maxpool1 self) out;
          out = Conv2d_call tb (conv3 self) out;
          out = map (op_relu tb) out;
          (out, self) = call_bn2 tb self out;
          out = Conv2d_call tb (conv4 self) out;
          out = map (op_relu tb) out;
          (out, self) = call_bn2 tb self out;
          out = MaxPool2d_call tb (maxpool1 self) out;
          out = Conv2d_call tb (conv5 self) out;
          out = map (op_relu tb) out;
          (out, self) = call_bn3 tb self out;
          out = Conv2d_call tb (conv6 self) out;
          out = map (op_relu tb) out;
          (out, self) = call_bn3 tb self out;
          out = MaxPool2d_call tb (maxpool1 self) out;
          out = map (op_flatten tb) out;
          out = Linear_call tb (linear1 self) out;
          out = map (op_relu tb) out;
          (out, g) = Dropout2d_call tb (training self) (dropout1 self) g out;
          out = Linear_call tb (linear2 self) out
      in (out, self, g))"


section \<open>The parameters of the model\<close>

text \<open>\<^verbatim>\<open>model.parameters()\<close>: the 22 parameters in the order \<^verbatim>\<open>__init__\<close> registers their
  modules. The optimiser and the backward pass write to them through \<open>mapi_parameters\<close>,
  which applies a function to each parameter with its position in that list.\<close>

definition parameters :: "'t CIFAR10Model \<Rightarrow> 't Parameter list" where
  "parameters self =
     [conv_weight (conv1 self), conv_bias (conv1 self),
      conv_weight (conv2 self), conv_bias (conv2 self),
      conv_weight (conv3 self), conv_bias (conv3 self),
      conv_weight (conv4 self), conv_bias (conv4 self),
      conv_weight (conv5 self), conv_bias (conv5 self),
      conv_weight (conv6 self), conv_bias (conv6 self),
      lin_weight (linear1 self), lin_bias (linear1 self),
      lin_weight (linear2 self), lin_bias (linear2 self),
      bn_weight (bn1 self), bn_bias (bn1 self),
      bn_weight (bn2 self), bn_bias (bn2 self),
      bn_weight (bn3 self), bn_bias (bn3 self)]"

definition mapi_Conv2d :: "(nat \<Rightarrow> 't Parameter \<Rightarrow> 't Parameter) \<Rightarrow> nat \<Rightarrow> 't Conv2d \<Rightarrow> 't Conv2d" where
  "mapi_Conv2d f k c = c\<lparr>conv_weight := f k (conv_weight c), conv_bias := f (k + 1) (conv_bias c)\<rparr>"

definition mapi_Linear :: "(nat \<Rightarrow> 't Parameter \<Rightarrow> 't Parameter) \<Rightarrow> nat \<Rightarrow> 't Linear \<Rightarrow> 't Linear" where
  "mapi_Linear f k l = l\<lparr>lin_weight := f k (lin_weight l), lin_bias := f (k + 1) (lin_bias l)\<rparr>"

definition mapi_BatchNorm2d ::
  "(nat \<Rightarrow> 't Parameter \<Rightarrow> 't Parameter) \<Rightarrow> nat \<Rightarrow> 't BatchNorm2d \<Rightarrow> 't BatchNorm2d" where
  "mapi_BatchNorm2d f k b = b\<lparr>bn_weight := f k (bn_weight b), bn_bias := f (k + 1) (bn_bias b)\<rparr>"

definition mapi_parameters ::
  "(nat \<Rightarrow> 't Parameter \<Rightarrow> 't Parameter) \<Rightarrow> 't CIFAR10Model \<Rightarrow> 't CIFAR10Model" where
  "mapi_parameters f self =
     self\<lparr>conv1 := mapi_Conv2d f 0 (conv1 self),
          conv2 := mapi_Conv2d f 2 (conv2 self),
          conv3 := mapi_Conv2d f 4 (conv3 self),
          conv4 := mapi_Conv2d f 6 (conv4 self),
          conv5 := mapi_Conv2d f 8 (conv5 self),
          conv6 := mapi_Conv2d f 10 (conv6 self),
          linear1 := mapi_Linear f 12 (linear1 self),
          linear2 := mapi_Linear f 14 (linear2 self),
          bn1 := mapi_BatchNorm2d f 16 (bn1 self),
          bn2 := mapi_BatchNorm2d f 18 (bn2 self),
          bn3 := mapi_BatchNorm2d f 20 (bn3 self)\<rparr>"

definition param_data :: "'t::zero CIFAR10Model \<Rightarrow> nat \<Rightarrow> 't" where
  "param_data self i =
     (if i < length (parameters self) then p_data (parameters self ! i) else 0)"

definition with_data :: "(nat \<Rightarrow> 't) \<Rightarrow> 't CIFAR10Model \<Rightarrow> 't CIFAR10Model" where
  "with_data ds self = mapi_parameters (\<lambda>i p. p\<lparr>p_data := ds i\<rparr>) self"

section \<open>Accuracy and the steps of the base class\<close>

type_synonym 't batch = "'t list \<times> nat list"

record result =
  val_loss :: real
  val_acc :: real

text \<open>\<^verbatim>\<open>accuracy\<close>: the predictions are the positions of the highest score of each
  sample; the count of predictions equal to the label is divided by the number of
  predictions, a Python division that raises on an empty batch. A batch has one label
  per sample, so predictions and labels are compared position by position.\<close>

definition accuracy :: "('t, 'g) backend \<Rightarrow> 't list \<Rightarrow> nat list \<Rightarrow> error + real" where
  "accuracy tb outputs labels =
     (let preds = map (op_argmax tb) outputs in
      if length preds = 0 then Inl ZeroDivisionError
      else Inr (real (length (filter (\<lambda>(p, l). p = l) (zip preds labels))) / real (length preds)))"

definition training_step ::
  "('t, 'g) backend \<Rightarrow> 't CIFAR10Model \<Rightarrow> 'g \<Rightarrow> 't batch \<Rightarrow> real \<times> 't CIFAR10Model \<times> 'g" where
  "training_step tb self g batch =
     (let (images, labels) = batch;
          (out, self, g) = forward tb self g images;
          loss = op_cross_entropy tb out labels
      in (loss, self, g))"

definition validation_step ::
  "('t, 'g) backend \<Rightarrow> 't CIFAR10Model \<Rightarrow> 'g \<Rightarrow> 't batch \<Rightarrow> error + (result \<times> 't CIFAR10Model \<times> 'g)" where
  "validation_step tb self g batch =
     (let (images, labels) = batch;
          (out, self, g) = forward tb self g images;
          loss = op_cross_entropy tb out labels
      in case accuracy tb out labels of
           Inl e \<Rightarrow> Inl e
         | Inr acc \<Rightarrow> Inr (\<lparr>val_loss = loss, val_acc = acc\<rparr>, self, g))"

text \<open>\<^verbatim>\<open>torch.stack(xs).mean()\<close>: stacking an empty list raises.\<close>

definition stack_mean :: "real list \<Rightarrow> error + real" where
  "stack_mean xs = (if xs = [] then Inl RuntimeError else Inr (sum_list xs / real (length xs)))"

definition validation_epoch_end :: "result list \<Rightarrow> error + result" where
  "validation_epoch_end outputs =
     (let batch_losses = map val_loss outputs in
      case stack_mean batch_losses of
        Inl e \<Rightarrow> Inl e
      | Inr epoch_loss \<Rightarrow>
          (let batch_accs = map val_acc outputs in
           case stack_mean batch_accs of
             Inl e \<Rightarrow> Inl e
           | Inr epoch_acc \<Rightarrow> Inr \<lparr>val_loss = epoch_loss, val_acc = epoch_acc\<rparr>))"

text \<open>\<^verbatim>\<open>epoch_end\<close> prints one line; the line is kept as the pair of the epoch number and
  the result it is formatted from.\<close>

definition epoch_end :: "nat \<Rightarrow> result \<Rightarrow> (nat \<times> result) list \<Rightarrow> (nat \<times> result) list" where
  "epoch_end epoch r printed = printed @ [(epoch, r)]"

section \<open>Data sets and loaders\<close>

type_synonym 't sample = "'t \<times> nat"

record 't DataLoader =
  dl_dataset :: "'t sample list"
  dl_batch_size :: nat
  dl_shuffle :: bool


function chunks :: "nat \<Rightarrow> 'a list \<Rightarrow> 'a list list" where
  "chunks n xs = (if n = 0 \<or> xs = [] then [] else take n xs # chunks n (drop n xs))"
  by pat_completeness auto
termination
  by (relation "measure (\<lambda>(n, xs). length xs)") auto

declare chunks.simps [simp del]

definition collate :: "'t sample list \<Rightarrow> 't batch" where
  "collate b = (map fst b, map snd b)"

text \<open>One pass over a loader: a shuffling loader draws a fresh permutation of the data
  set from the generator at the start of every pass, the others keep the order of the
  data set. The last batch may be short; no batch is empty.\<close>

definition iter_DataLoader :: "('t, 'g) backend \<Rightarrow> 't DataLoader \<Rightarrow> 'g \<Rightarrow> 't batch list \<times> 'g" where
  "iter_DataLoader tb dl g =
     (if dl_shuffle dl then
        (let (perm, g1) = op_randperm tb g (length (dl_dataset dl))
         in (map collate (chunks (dl_batch_size dl) (map (nth (dl_dataset dl)) perm)), g1))
      else (map collate (chunks (dl_batch_size dl) (dl_dataset dl)), g))"

datatype device = Device string

definition get_default_device :: device where
  "get_default_device = Device ''cpu''"

definition to_device :: "'t batch \<Rightarrow> device \<Rightarrow> 't batch" where
  "to_device b dev = (case b of (images, labels) \<Rightarrow> (images, labels))"

record 't DeviceDataLoader =
  ddl_dl :: "'t DataLoader"
  ddl_device :: device

definition iter_DeviceDataLoader ::
  "('t, 'g) backend \<Rightarrow> 't DeviceDataLoader \<Rightarrow> 'g \<Rightarrow> 't batch list \<times> 'g" where
  "iter_DeviceDataLoader tb l g =
     (let (bs, g1) = iter_DataLoader tb (ddl_dl l) g
      in (map (\<lambda>b. to_device b (ddl_device l)) bs, g1))"

definition len_DeviceDataLoader :: "'t DeviceDataLoader \<Rightarrow> nat" where
  "len_DeviceDataLoader l =
     (let n = length (dl_dataset (ddl_dl l)); b = dl_batch_size (ddl_dl l)
      in (n + b - 1) div b)"

section \<open>Evaluation\<close>

fun validation_steps ::
  "('t, 'g) backend \<Rightarrow> 't CIFAR10Model \<Rightarrow> 'g \<Rightarrow> 't batch list
     \<Rightarrow> error + (result list \<times> 't CIFAR10Model \<times> 'g)" where
  "validation_steps tb self g [] = Inr ([], self, g)"
| "validation_steps tb self g (b # bs) =
     (case validation_step tb self g b of
        Inl e \<Rightarrow> Inl e
      | Inr (r, self1, g1) \<Rightarrow>
          (case validation_steps tb self1 g1 bs of
             Inl e \<Rightarrow> Inl e
           | Inr (rs, self2, g2) \<Rightarrow> Inr (r # rs, self2, g2)))"

text \<open>\<^verbatim>\<open>evaluate\<close>: one validation step per batch of the loader, in order, then the
  aggregation. It is called on the model as it is: the mode of the model is not
  changed before or after.\<close>

definition evaluate ::
  "('t, 'g) backend \<Rightarrow> 't CIFAR10Model \<Rightarrow> 'g \<Rightarrow> 't DeviceDataLoader
     \<Rightarrow> error + (result \<times> 't CIFAR10Model \<times> 'g)" where
  "evaluate tb model g val_loader =
     (let (batches, g1) = iter_DeviceDataLoader tb val_loader g in
      case validation_steps tb model g1 batches of
        Inl e \<Rightarrow> Inl e
      | Inr (outputs, model1, g2) \<Rightarrow>
          (case validation_epoch_end outputs of
             Inl e \<Rightarrow> Inl e
           | Inr r \<Rightarrow> Inr (r, model1, g2)))"


section \<open>The optimiser\<close>

text \<open>\<^verbatim>\<open>torch.optim.SGD\<close>, the default \<^verbatim>\<open>opt_func\<close> of \<^verbatim>\<open>fit\<close>: a learning rate, a momentum
  coefficient (0 unless the caller asks for one) and, as its only internal state, one
  momentum buffer per parameter, absent until the parameter's first step. The
  constructor refuses a negative learning rate or momentum.\<close>

record 't SGD =
  sgd_lr :: real
  sgd_momentum :: real
  sgd_state :: "nat \<Rightarrow> 't option"

definition SGD_momentum :: "real \<Rightarrow> 't Parameter list \<Rightarrow> real \<Rightarrow> error + 't SGD" where
  "SGD_momentum mu params lr =
     (if lr < 0 then Inl ValueError
      else if mu < 0 then Inl ValueError
      else Inr \<lparr>sgd_lr = lr, sgd_momentum = mu, sgd_state = (\<lambda>i. None)\<rparr>)"

definition torch_optim_SGD :: "'t Parameter list \<Rightarrow> real \<Rightarrow> error + 't SGD" where
  "torch_optim_SGD params lr = SGD_momentum 0 params lr"

text \<open>The direction of one step for the parameter at position \<open>i\<close>: nothing for a
  parameter without gradient; the gradient itself without momentum; with momentum the
  buffer, which starts as the gradient and then is \<open>mu * buffer + gradient\<close>.\<close>

definition sgd_direction :: "'t::real_vector SGD \<Rightarrow> nat \<Rightarrow> 't Parameter \<Rightarrow> 't option" where
  "sgd_direction opt i p =
     (case p_grad p of
        None \<Rightarrow> None
      | Some d \<Rightarrow>
          if sgd_momentum opt = 0 then Some d
          else (case sgd_state opt i of
                  None \<Rightarrow> Some d
                | Some buf \<Rightarrow> Some (sgd_momentum opt *\<^sub>R buf + d)))"

definition sgd_update :: "'t::real_vector SGD \<Rightarrow> nat \<Rightarrow> 't Parameter \<Rightarrow> 't Parameter" where
  "sgd_update opt i p =
     (case sgd_direction opt i p of
        None \<Rightarrow> p
      | Some d \<Rightarrow> p\<lparr>p_data := p_data p - sgd_lr opt *\<^sub>R d\<rparr>)"

definition optimizer_step ::
  "'t::real_vector SGD \<Rightarrow> 't CIFAR10Model \<Rightarrow> 't SGD \<times> 't CIFAR10Model" where
  "optimizer_step opt self =
     (let ps = parameters self;
          st = (\<lambda>i. if i < length ps \<and> sgd_momentum opt \<noteq> 0
                     then (case sgd_direction opt i (ps ! i) of
                             None \<Rightarrow> sgd_state opt i
                           | Some d \<Rightarrow> Some d)
                     else sgd_state opt i)
      in (opt\<lparr>sgd_state := st\<rparr>, mapi_parameters (sgd_update opt) self))"

text \<open>\<^verbatim>\<open>optimizer.zero_grad()\<close>: every gradient that exists is set to the zero tensor
  (later versions of the framework drop the gradient instead; the next backward pass
  starts from nothing either way).\<close>

definition zero_grad :: "'t::real_vector CIFAR10Model \<Rightarrow> 't CIFAR10Model" where
  "zero_grad self = mapi_parameters (\<lambda>i p. p\<lparr>p_grad := map_option (\<lambda>_. 0) (p_grad p)\<rparr>) self"

section \<open>The backward pass\<close>

text \<open>\<^verbatim>\<open>loss.backward()\<close> adds to the gradient of every parameter the derivative of the
  loss of the step just taken. The loss is a function of the parameter values: the
  training step run from the model and the generator state it started from, with the
  values replaced. The framework differentiates it (\<open>op_backward\<close>) at the current
  values.\<close>

definition loss_fn ::
  "('t, 'g) backend \<Rightarrow> 't CIFAR10Model \<Rightarrow> 'g \<Rightarrow> 't batch \<Rightarrow> (nat \<Rightarrow> 't) \<Rightarrow> real" where
  "loss_fn tb self g batch ds = fst (training_step tb (with_data ds self) g batch)"

definition batch_gradient ::
  "('t::real_vector, 'g) backend \<Rightarrow> 't CIFAR10Model \<Rightarrow> 'g \<Rightarrow> 't batch \<Rightarrow> nat \<Rightarrow> 't" where
  "batch_gradient tb self g batch = op_backward tb (loss_fn tb self g batch) (param_data self)"

definition accumulate :: "'t::real_vector \<Rightarrow> 't Parameter \<Rightarrow> 't Parameter" where
  "accumulate d p = p\<lparr>p_grad := Some (case p_grad p of None \<Rightarrow> d | Some a \<Rightarrow> a + d)\<rparr>"

definition backward :: "(nat \<Rightarrow> 't::real_vector) \<Rightarrow> 't CIFAR10Model \<Rightarrow> 't CIFAR10Model" where
  "backward gs self = mapi_parameters (\<lambda>i p. accumulate (gs i) p) self"

section \<open>The training loop\<close>

record ('t, 'g) fit_state =
  fs_history :: "result list"
  fs_printed :: "(nat \<times> result) list"
  fs_optimizer :: "'t SGD"
  fs_model :: "'t CIFAR10Model"
  fs_rng :: 'g

text \<open>The body of \<^verbatim>\<open>for batch in train_loader\<close>.\<close>

definition train_batch ::
  "('t::real_vector, 'g) backend \<Rightarrow> 't SGD \<times> 't CIFAR10Model \<times> 'g \<Rightarrow> 't batch
     \<Rightarrow> 't SGD \<times> 't CIFAR10Model \<times> 'g" where
  "train_batch tb s batch =
     (let (optimizer, model, g) = s;
          (loss, model1, g1) = training_step tb model g batch;
          model2 = backward (batch_gradient tb model g batch) model1;
          (optimizer1, model3) = optimizer_step optimizer model2;
          model4 = zero_grad model3
      in (optimizer1, model4, g1))"

fun train_batches ::
  "('t::real_vector, 'g) backend \<Rightarrow> 't SGD \<times> 't CIFAR10Model \<times> 'g \<Rightarrow> 't batch list
     \<Rightarrow> 't SGD \<times> 't CIFAR10Model \<times> 'g" where
  "train_batches tb s [] = s"
| "train_batches tb s (b # bs) = train_batches tb (train_batch tb s b) bs"

text \<open>The body of \<^verbatim>\<open>for epoch in range(epochs)\<close>, run over the epoch numbers. An error of
  the validation phase ends the run.\<close>

fun fit_loop ::
  "('t::real_vector, 'g) backend \<Rightarrow> 't DeviceDataLoader \<Rightarrow> 't DeviceDataLoader
     \<Rightarrow> ('t, 'g) fit_state \<Rightarrow> nat list \<Rightarrow> error + ('t, 'g) fit_state" where
  "fit_loop tb train_loader val_loader st [] = Inr st"
| "fit_loop tb train_loader val_loader st (epoch # rest) =
     (let (batches, g1) = iter_DeviceDataLoader tb train_loader (fs_rng st);
          (optimizer, model, g2) = train_batches tb (fs_optimizer st, fs_model st, g1) batches
      in case evaluate tb model g2 val_loader of
           Inl e \<Rightarrow> Inl e
         | Inr (r, model1, g3) \<Rightarrow>
             fit_loop tb train_loader val_loader
               \<lparr>fs_history = fs_history st @ [r],
                fs_printed = epoch_end epoch r (fs_printed st),
                fs_optimizer = optimizer, fs_model = model1, fs_rng = g3\<rparr> rest)"

text \<open>\<^verbatim>\<open>fit\<close>. The history and the optimiser are locals of the call: the history starts
  empty and the optimiser is built by \<^verbatim>\<open>opt_func\<close> from the parameters of the model and
  the learning rate. The Python function returns the history and leaves its effects in
  the model, the generator and the output; here it returns the state the loop ends in.\<close>

definition fit ::
  "('t::real_vector, 'g) backend \<Rightarrow> nat \<Rightarrow> real \<Rightarrow> 't CIFAR10Model \<Rightarrow> 'g
     \<Rightarrow> 't DeviceDataLoader \<Rightarrow> 't DeviceDataLoader
     \<Rightarrow> ('t Parameter list \<Rightarrow> real \<Rightarrow> error + 't SGD) \<Rightarrow> error + ('t, 'g) fit_state" where
  "fit tb epochs lr model g train_loader val_loader opt_func =
     (let history = [] in
      case opt_func (parameters model) lr of
        Inl e \<Rightarrow> Inl e
      | Inr optimizer \<Rightarrow>
          fit_loop tb train_loader val_loader
            \<lparr>fs_history = history, fs_printed = [], fs_optimizer = optimizer,
             fs_model = model, fs_rng = g\<rparr> [0..<epochs])"

definition count_parameters :: "('t \<Rightarrow> nat) \<Rightarrow> 't CIFAR10Model \<Rightarrow> nat" where
  "count_parameters numel model = sum_list (map (\<lambda>p. numel (p_data p)) (parameters model))"


section \<open>The split and the script\<close>

text \<open>A Python slice \<^verbatim>\<open>xs[a:b]\<close> with integer bounds.\<close>

definition py_slice :: "'a list \<Rightarrow> int \<Rightarrow> int \<Rightarrow> 'a list" where
  "py_slice xs a b =
     (let n = int (length xs);
          lo = (if a < 0 then max (a + n) 0 else min a n);
          hi = (if b < 0 then max (b + n) 0 else min b n)
      in take (nat (hi - lo)) (drop (nat lo) xs))"

fun split_slices :: "nat list \<Rightarrow> int \<Rightarrow> int list \<Rightarrow> nat list list" where
  "split_slices indices offset [] = []"
| "split_slices indices offset (l # ls) =
     py_slice indices offset (offset + l) # split_slices indices (offset + l) ls"

record 't Subset =
  sub_dataset :: "'t sample list"
  sub_indices :: "nat list"

definition len_Subset :: "'t Subset \<Rightarrow> nat" where
  "len_Subset s = length (sub_indices s)"


text \<open>\<^verbatim>\<open>random_split\<close> of the framework: the lengths must add up to the size of the data
  set; a random permutation of the positions is cut into consecutive slices of the given
  lengths.\<close>

definition random_split ::
  "('t, 'g) backend \<Rightarrow> 'g \<Rightarrow> 't sample list \<Rightarrow> int list \<Rightarrow> error + ('t Subset list \<times> 'g)" where
  "random_split tb g dataset lengths =
     (if sum_list lengths \<noteq> int (length dataset) then Inl ValueError
      else
        (let (indices, g1) = op_randperm tb g (nat (sum_list lengths))
         in Inr (map (\<lambda>ix. \<lparr>sub_dataset = dataset, sub_indices = ix\<rparr>)
                   (split_slices indices 0 lengths), g1)))"

definition bind_error :: "error + 'a \<Rightarrow> ('a \<Rightarrow> error + 'b) \<Rightarrow> error + 'b" where
  "bind_error r f = (case r of Inl e \<Rightarrow> Inl e | Inr x \<Rightarrow> f x)"

definition val_size :: int where
  "val_size = 5000"

definition train_size :: "'t sample list \<Rightarrow> int" where
  "train_size dataset = int (length dataset) - val_size"


text \<open>The split of the script: the generator is seeded with 43, then the data set is
  split into \<open>[train_size, val_size]\<close>.\<close>

definition split_dataset ::
  "('t, 'g) backend \<Rightarrow> 't sample list \<Rightarrow> error + (('t Subset \<times> 't Subset) \<times> 'g)" where
  "split_dataset tb dataset =
     (let g = op_manual_seed tb 43 in
      bind_error (random_split tb g dataset [train_size dataset, val_size])
        (\<lambda>(parts, g1).
           case parts of
             [train_ds, val_ds] \<Rightarrow> Inr ((train_ds, val_ds), g1)
           | _ \<Rightarrow> Inl ValueError))"

record 't loaders =
  train_loader :: "'t DeviceDataLoader"
  val_loader :: "'t DeviceDataLoader"
  test_loader :: "'t DeviceDataLoader"








section \<open>A miniature backend\<close>

text \<open>To run the definitions on concrete inputs: tensors are single reals, the generator
  is a counter. Convolution and the linear map are \<open>w * x + b\<close>, pooling and flattening
  the identity, normalisation centres on the mean and applies weight and bias, the loss
  is the mean squared distance of the score to the label, the derivative is the central
  difference with step 1 (exact for such a loss along one parameter), dropout with
  \<open>p = 1/2\<close> drops a sample on an even draw and doubles it on an odd one, and the
  permutation is the reversal.\<close>

definition mean_list :: "real list \<Rightarrow> real" where
  "mean_list xs = (if xs = [] then 0 else sum_list xs / real (length xs))"

definition mini :: "(real, nat) backend" where
  "mini =
     \<lparr>op_conv2d = (\<lambda>w b pad x. w * x + b),
      op_relu = (\<lambda>x. max 0 x),
      op_max_pool2d = (\<lambda>k s x. x),
      op_flatten = (\<lambda>x. x),
      op_linear = (\<lambda>w b x. w * x + b),
      op_batch_stats = (\<lambda>xs. (mean_list xs, mean_list (map (\<lambda>x. (x - mean_list xs)\<^sup>2) xs))),
      op_normalize = (\<lambda>mean var w b eps x. w * (x - mean) + b),
      op_running_update = (\<lambda>mom (rm, rv) xs.
         ((1 - mom) * rm + mom * mean_list xs,
          (1 - mom) * rv + mom * mean_list (map (\<lambda>x. (x - mean_list xs)\<^sup>2) xs))),
      op_dropout = (\<lambda>p g x. (if even g then 0 else x / (1 - p), g + 1)),
      op_cross_entropy = (\<lambda>outs labels. mean_list (map (\<lambda>(out, l). (out - real l)\<^sup>2) (zip outs labels))),
      op_argmax = (\<lambda>x. if x < 1 / 2 then 0 else 1),
      op_backward = (\<lambda>f ds i. (f (ds(i := ds i + 1)) - f (ds(i := ds i - 1))) / 2),
      op_randperm = (\<lambda>g n. (rev [0..<n], g + 1)),
      op_init = (\<lambda>g. (\<lambda>name. 0, g + 1)),
      op_manual_seed = (\<lambda>seed. nat \<bar>seed\<bar>)\<rparr>"

text \<open>Small inputs for the miniature backend: a loader over a given list of samples, and
  the model whose tensors are all 0 but the bias of the first linear layer and the weight
  of the second, which are 1.\<close>

definition demo_loader :: "real sample list \<Rightarrow> nat \<Rightarrow> bool \<Rightarrow> real DeviceDataLoader" where
  "demo_loader ds bs sh =
     \<lparr>ddl_dl = \<lparr>dl_dataset = ds, dl_batch_size = bs, dl_shuffle = sh\<rparr>,
      ddl_device = get_default_device\<rparr>"

definition demo_model :: "real CIFAR10Model" where
  "demo_model =
     new_CIFAR10Model (\<lambda>name. if name = ''linear1.bias'' \<or> name = ''linear2.weight'' then 1 else 0)"

text \<open>The model whose tensors are all 0 but the bias of the second linear layer, which
  is 1.\<close>

definition flat_model :: "real CIFAR10Model" where
  "flat_model = new_CIFAR10Model (\<lambda>name. if name = ''linear2.bias'' then 1 else 0)"

section \<open>The forward pass by stages\<close>

text \<open>The forward pass read as the specification describes it: a stage is two
  convolutions, each followed by the activation and by the batch normalisation of the
  stage, then the pooling; the head flattens and applies the first linear layer, the
  activation, dropout and the second linear layer.\<close>

definition stage ::
  "('t, 'g) backend \<Rightarrow> bool \<Rightarrow> 't Conv2d \<Rightarrow> 't Conv2d \<Rightarrow> 't BatchNorm2d \<Rightarrow> MaxPool2d \<Rightarrow> 't list
     \<Rightarrow> 't list \<times> 't BatchNorm2d" where
  "stage tb train ca cb bn mp xs =
     (let (ys, bn1) = BatchNorm2d_call tb train bn (map (op_relu tb) (Conv2d_call tb ca xs));
          (zs, bn2) = BatchNorm2d_call tb train bn1 (map (op_relu tb) (Conv2d_call tb cb ys))
      in (MaxPool2d_call tb mp zs, bn2))"

definition head ::
  "('t, 'g) backend \<Rightarrow> bool \<Rightarrow> 't Linear \<Rightarrow> Dropout2d \<Rightarrow> 't Linear \<Rightarrow> 'g \<Rightarrow> 't list \<Rightarrow> 't list \<times> 'g" where
  "head tb train l1 d l2 g xs =
     (let (hs, g1) = Dropout2d_call tb train d g
                       (map (op_relu tb) (Linear_call tb l1 (map (op_flatten tb) xs)))
      in (Linear_call tb l2 hs, g1))"

definition forward_staged ::
  "('t, 'g) backend \<Rightarrow> 't CIFAR10Model \<Rightarrow> 'g \<Rightarrow> 't list \<Rightarrow> 't list \<times> 't CIFAR10Model \<times> 'g" where
  "forward_staged tb self g xb =
     (let (out1, b1) = stage tb (training self) (conv1 self) (conv2 self) (bn1 self) (maxpool1 self) xb;
          (out2, b2) = stage tb (training self) (conv3 self) (conv4 self) (bn2 self) (maxpool1 self) out1;
          (out3, b3) = stage tb (training self) (conv5 self) (conv6 self) (bn3 self) (maxpool1 self) out2;
          (out, g1) = head tb (training self) (linear1 self) (dropout1 self) (linear2 self) g out3
      in (out, self\<lparr>bn1 := b1, bn2 := b2, bn3 := b3\<rparr>, g1))"







text \<open>Two models have the same weights when they differ at most in the running
  statistics of their batch normalisations, and not at all when in evaluation mode.\<close>

definition forget_bn :: "'t::zero BatchNorm2d \<Rightarrow> 't BatchNorm2d" where
  "forget_bn b = b\<lparr>running_mean := 0, running_var := 0, num_batches_tracked := 0\<rparr>"

definition forget_stats :: "'t::zero CIFAR10Model \<Rightarrow> 't CIFAR10Model" where
  "forget_stats self =
     self\<lparr>bn1 := forget_bn (bn1 self), bn2 := forget_bn (bn2 self), bn3 := forget_bn (bn3 self)\<rparr>"

definition same_weights :: "'t::zero CIFAR10Model \<Rightarrow> 't CIFAR10Model \<Rightarrow> bool" where
  "same_weights m n = (forget_stats m = forget_stats n \<and> (training m \<or> m = n))"



section \<open>Properties of the modules, the forward pass and the evaluation\<close>

lemma forward_eq_staged: "forward tb self g xb = forward_staged tb self g xb"
  unfolding forward_def forward_staged_def stage_def head_def call_bn1_def call_bn2_def call_bn3_def
  by (simp add: Let_def split_def)

lemma length_dropout_samples: "length (fst (dropout_samples tb p g xs)) = length xs"
  by (induction xs arbitrary: g) (simp_all add: split_def Let_def)

lemma length_BatchNorm2d_call: "length (fst (BatchNorm2d_call tb tr bn xs)) = length xs"
  by (simp add: BatchNorm2d_call_def split_def Let_def)

lemma BatchNorm2d_call_eval: "snd (BatchNorm2d_call tb False bn xs) = bn"
  by (simp add: BatchNorm2d_call_def)

lemma BatchNorm2d_call_counter:
  "num_batches_tracked (snd (BatchNorm2d_call tb tr bn xs)) =
     (if tr then num_batches_tracked bn + 1 else num_batches_tracked bn)"
  by (simp add: BatchNorm2d_call_def split_def Let_def)

lemma BatchNorm2d_call_params:
  "bn_weight (snd (BatchNorm2d_call tb tr bn xs)) = bn_weight bn"
  "bn_bias (snd (BatchNorm2d_call tb tr bn xs)) = bn_bias bn"
  by (simp_all add: BatchNorm2d_call_def split_def Let_def)

lemma forget_bn_call: "forget_bn (snd (BatchNorm2d_call tb tr bn xs)) = forget_bn bn"
  by (simp add: BatchNorm2d_call_def split_def Let_def forget_bn_def)

lemma BatchNorm2d_call_train_forget:
  assumes "forget_bn a = forget_bn b"
  shows "fst (BatchNorm2d_call tb True a xs) = fst (BatchNorm2d_call tb True b xs)"
proof -
  have "bn_weight (forget_bn a) = bn_weight (forget_bn b)" "bn_bias (forget_bn a) = bn_bias (forget_bn b)"
    "bn_eps (forget_bn a) = bn_eps (forget_bn b)"
    using assms by simp_all
  then have "bn_weight a = bn_weight b" "bn_bias a = bn_bias b" "bn_eps a = bn_eps b"
    by (simp_all add: forget_bn_def)
  then show ?thesis
    by (simp add: BatchNorm2d_call_def split_def Let_def)
qed

lemma length_stage: "length (fst (stage tb tr ca cb bn mp xs)) = length xs"
  by (simp add: stage_def split_def Let_def length_BatchNorm2d_call Conv2d_call_def MaxPool2d_call_def)

lemma stage_eval: "snd (stage tb False ca cb bn mp xs) = bn"
  by (simp add: stage_def split_def Let_def BatchNorm2d_call_eval)

lemma stage_counter:
  "num_batches_tracked (snd (stage tb tr ca cb bn mp xs)) =
     (if tr then num_batches_tracked bn + 2 else num_batches_tracked bn)"
  by (simp add: stage_def split_def Let_def BatchNorm2d_call_counter)

lemma stage_params:
  "bn_weight (snd (stage tb tr ca cb bn mp xs)) = bn_weight bn"
  "bn_bias (snd (stage tb tr ca cb bn mp xs)) = bn_bias bn"
  by (simp_all add: stage_def split_def Let_def BatchNorm2d_call_params)

lemma forget_bn_stage: "forget_bn (snd (stage tb tr ca cb bn mp xs)) = forget_bn bn"
  by (simp add: stage_def split_def Let_def forget_bn_call)

lemma stage_train_forget:
  assumes "forget_bn a = forget_bn b"
  shows "fst (stage tb True ca cb a mp xs) = fst (stage tb True ca cb b mp xs)"
proof -
  let ?x = "map (op_relu tb) (Conv2d_call tb ca xs)"
  have 1: "fst (BatchNorm2d_call tb True a ?x) = fst (BatchNorm2d_call tb True b ?x)"
    by (rule BatchNorm2d_call_train_forget [OF assms])
  have "forget_bn (snd (BatchNorm2d_call tb True a ?x)) = forget_bn (snd (BatchNorm2d_call tb True b ?x))"
    by (simp add: forget_bn_call assms)
  then have 2: "fst (BatchNorm2d_call tb True (snd (BatchNorm2d_call tb True a ?x)) ys)
      = fst (BatchNorm2d_call tb True (snd (BatchNorm2d_call tb True b ?x)) ys)" for ys
    by (rule BatchNorm2d_call_train_forget)
  show ?thesis
    by (simp add: stage_def split_def Let_def 1 2)
qed

lemma length_head: "length (fst (head tb tr l1 d l2 g xs)) = length xs"
  by (simp add: head_def split_def Let_def Dropout2d_call_def Linear_call_def length_dropout_samples)

lemma head_eval: "snd (head tb False l1 d l2 g xs) = g"
  by (simp add: head_def split_def Let_def Dropout2d_call_def)

lemma length_forward: "length (fst (forward tb self g xb)) = length xb"
  by (simp add: forward_eq_staged forward_staged_def split_def Let_def length_head length_stage)

lemma forward_eval: "\<not> training self \<Longrightarrow> snd (forward tb self g xb) = (self, g)"
  by (simp add: forward_eq_staged forward_staged_def split_def Let_def head_eval stage_eval)

lemma forward_model:
  "fst (snd (forward tb self g xb)) =
     self\<lparr>bn1 := bn1 (fst (snd (forward tb self g xb))),
          bn2 := bn2 (fst (snd (forward tb self g xb))),
          bn3 := bn3 (fst (snd (forward tb self g xb)))\<rparr>"
  by (simp add: forward_eq_staged forward_staged_def split_def Let_def)

lemma forward_counters:
  "num_batches_tracked (bn1 (fst (snd (forward tb self g xb)))) =
     (if training self then num_batches_tracked (bn1 self) + 2 else num_batches_tracked (bn1 self))"
  "num_batches_tracked (bn2 (fst (snd (forward tb self g xb)))) =
     (if training self then num_batches_tracked (bn2 self) + 2 else num_batches_tracked (bn2 self))"
  "num_batches_tracked (bn3 (fst (snd (forward tb self g xb)))) =
     (if training self then num_batches_tracked (bn3 self) + 2 else num_batches_tracked (bn3 self))"
  by (simp_all add: forward_eq_staged forward_staged_def split_def Let_def stage_counter)

lemma forward_training: "training (fst (snd (forward tb self g xb))) = training self"
  by (simp add: forward_eq_staged forward_staged_def split_def Let_def)

lemma forward_parameters: "parameters (fst (snd (forward tb self g xb))) = parameters self"
  by (simp add: forward_eq_staged forward_staged_def split_def Let_def parameters_def stage_params)

lemma forget_stats_forward: "forget_stats (fst (snd (forward tb self g xb))) = forget_stats self"
  by (simp add: forward_eq_staged forward_staged_def split_def Let_def forget_stats_def forget_bn_stage)

lemma forget_stats_fields:
  assumes "forget_stats m = forget_stats n"
  shows "conv1 m = conv1 n" "conv2 m = conv2 n" "conv3 m = conv3 n" "conv4 m = conv4 n"
    "conv5 m = conv5 n" "conv6 m = conv6 n" "maxpool1 m = maxpool1 n"
    "linear1 m = linear1 n" "linear2 m = linear2 n" "dropout1 m = dropout1 n"
    "training m = training n"
    "forget_bn (bn1 m) = forget_bn (bn1 n)" "forget_bn (bn2 m) = forget_bn (bn2 n)"
    "forget_bn (bn3 m) = forget_bn (bn3 n)"
proof -
  have "conv1 (forget_stats m) = conv1 (forget_stats n)" "conv2 (forget_stats m) = conv2 (forget_stats n)"
    "conv3 (forget_stats m) = conv3 (forget_stats n)" "conv4 (forget_stats m) = conv4 (forget_stats n)"
    "conv5 (forget_stats m) = conv5 (forget_stats n)" "conv6 (forget_stats m) = conv6 (forget_stats n)"
    "maxpool1 (forget_stats m) = maxpool1 (forget_stats n)"
    "linear1 (forget_stats m) = linear1 (forget_stats n)" "linear2 (forget_stats m) = linear2 (forget_stats n)"
    "dropout1 (forget_stats m) = dropout1 (forget_stats n)"
    "training (forget_stats m) = training (forget_stats n)"
    "bn1 (forget_stats m) = bn1 (forget_stats n)" "bn2 (forget_stats m) = bn2 (forget_stats n)"
    "bn3 (forget_stats m) = bn3 (forget_stats n)"
    using assms by simp_all
  then show "conv1 m = conv1 n" "conv2 m = conv2 n" "conv3 m = conv3 n" "conv4 m = conv4 n"
    "conv5 m = conv5 n" "conv6 m = conv6 n" "maxpool1 m = maxpool1 n"
    "linear1 m = linear1 n" "linear2 m = linear2 n" "dropout1 m = dropout1 n"
    "training m = training n"
    "forget_bn (bn1 m) = forget_bn (bn1 n)" "forget_bn (bn2 m) = forget_bn (bn2 n)"
    "forget_bn (bn3 m) = forget_bn (bn3 n)"
    by (simp_all add: forget_stats_def)
qed

lemma forward_same_weights:
  assumes "same_weights m n"
  shows "fst (forward tb m g xb) = fst (forward tb n g xb)"
    and "snd (snd (forward tb m g xb)) = snd (snd (forward tb n g xb))"
    and "same_weights (fst (snd (forward tb m g xb))) (fst (snd (forward tb n g xb)))"
proof -
  have f: "forget_stats m = forget_stats n" and t: "training m \<or> m = n"
    using assms by (simp_all add: same_weights_def)
  note e = forget_stats_fields [OF f]
  have out: "fst (forward tb m g xb) = fst (forward tb n g xb)
       \<and> snd (snd (forward tb m g xb)) = snd (snd (forward tb n g xb))"
  proof (cases "training m")
    case True
    then have tn: "training n" using e(11) by simp
    have s1: "fst (stage tb True (conv1 n) (conv2 n) (bn1 m) (maxpool1 n) xs)
        = fst (stage tb True (conv1 n) (conv2 n) (bn1 n) (maxpool1 n) xs)" for xs
      by (rule stage_train_forget [OF e(12)])
    have s2: "fst (stage tb True (conv3 n) (conv4 n) (bn2 m) (maxpool1 n) xs)
        = fst (stage tb True (conv3 n) (conv4 n) (bn2 n) (maxpool1 n) xs)" for xs
      by (rule stage_train_forget [OF e(13)])
    have s3: "fst (stage tb True (conv5 n) (conv6 n) (bn3 m) (maxpool1 n) xs)
        = fst (stage tb True (conv5 n) (conv6 n) (bn3 n) (maxpool1 n) xs)" for xs
      by (rule stage_train_forget [OF e(14)])
    show ?thesis
      using True tn
      by (simp add: forward_eq_staged forward_staged_def split_def Let_def e(1-10) s1 s2 s3)
  next
    case False
    then show ?thesis using t by simp
  qed
  then show "fst (forward tb m g xb) = fst (forward tb n g xb)"
    and "snd (snd (forward tb m g xb)) = snd (snd (forward tb n g xb))" by simp_all
  show "same_weights (fst (snd (forward tb m g xb))) (fst (snd (forward tb n g xb)))"
    using t f by (auto simp add: same_weights_def forget_stats_forward forward_training)
qed

lemma validation_step_unfold:
  "validation_step tb m g b =
     (case accuracy tb (fst (forward tb m g (fst b))) (snd b) of
        Inl e \<Rightarrow> Inl e
      | Inr acc \<Rightarrow>
          Inr (\<lparr>val_loss = op_cross_entropy tb (fst (forward tb m g (fst b))) (snd b), val_acc = acc\<rparr>,
               fst (snd (forward tb m g (fst b))), snd (snd (forward tb m g (fst b)))))"
  by (simp add: validation_step_def split_def Let_def)

lemma validation_step_ok:
  assumes "fst b \<noteq> []"
  shows "\<exists>r m1 g1. validation_step tb m g b = Inr (r, m1, g1)"
proof -
  obtain images labels where b: "b = (images, labels)" by (cases b)
  have "length (map (op_argmax tb) (fst (forward tb m g images))) \<noteq> 0"
    using assms b by (simp add: length_forward)
  then show ?thesis
    by (simp add: validation_step_def b split_def Let_def accuracy_def)
qed

lemma validation_step_model:
  assumes "validation_step tb m g b = Inr (r, m1, g1)"
  shows "m1 = fst (snd (forward tb m g (fst b)))"
  using assms by (auto simp add: validation_step_def split_def Let_def split: sum.splits)

lemma validation_step_same_weights:
  assumes "same_weights m n" and "validation_step tb m g b = Inr (r, m1, g1)"
  shows "\<exists>n1. validation_step tb n g b = Inr (r, n1, g1) \<and> same_weights m1 n1"
proof (cases "accuracy tb (fst (forward tb m g (fst b))) (snd b)")
  case (Inl e)
  then show ?thesis using assms(2) by (simp add: validation_step_unfold)
next
  case (Inr acc)
  note fw = forward_same_weights [OF assms(1), of tb g "fst b"]
  have "validation_step tb m g b =
      Inr (\<lparr>val_loss = op_cross_entropy tb (fst (forward tb m g (fst b))) (snd b), val_acc = acc\<rparr>,
           fst (snd (forward tb m g (fst b))), snd (snd (forward tb m g (fst b))))"
    by (simp add: validation_step_unfold Inr)
  with assms(2) have
    r: "r = \<lparr>val_loss = op_cross_entropy tb (fst (forward tb m g (fst b))) (snd b), val_acc = acc\<rparr>"
    and m1: "m1 = fst (snd (forward tb m g (fst b)))"
    and g1: "g1 = snd (snd (forward tb m g (fst b)))"
    by simp_all
  have "accuracy tb (fst (forward tb n g (fst b))) (snd b) = Inr acc"
    using Inr by (simp only: fw(1))
  then have "validation_step tb n g b = Inr (r, fst (snd (forward tb n g (fst b))), g1)"
    by (simp add: validation_step_unfold r g1 fw(1) fw(2))
  then show ?thesis using fw(3) m1 by blast
qed

lemma validation_steps_ok:
  assumes "\<forall>b\<in>set bs. fst b \<noteq> []"
  shows "\<exists>rs m1 g1. validation_steps tb m g bs = Inr (rs, m1, g1) \<and> length rs = length bs"
  using assms
proof (induction bs arbitrary: m g)
  case Nil
  then show ?case by simp
next
  case (Cons b bs)
  from Cons.prems obtain r m1 g1 where 1: "validation_step tb m g b = Inr (r, m1, g1)"
    using validation_step_ok [of b tb m g] by auto
  from Cons.prems Cons.IH [of m1 g1] obtain rs m2 g2 where
    2: "validation_steps tb m1 g1 bs = Inr (rs, m2, g2)" "length rs = length bs"
    by auto
  show ?case by (simp add: 1 2)
qed

lemma validation_steps_same_weights:
  assumes "same_weights m n" and "validation_steps tb m g bs = Inr (rs, m1, g1)"
  shows "\<exists>n1. validation_steps tb n g bs = Inr (rs, n1, g1) \<and> same_weights m1 n1"
  using assms
proof (induction bs arbitrary: m n g rs)
  case Nil
  then show ?case by auto
next
  case (Cons b bs)
  from Cons.prems(2) obtain r ma ga rs' where
    1: "validation_step tb m g b = Inr (r, ma, ga)"
    and 2: "validation_steps tb ma ga bs = Inr (rs', m1, g1)" and rs: "rs = r # rs'"
    by (auto split: sum.splits)
  from validation_step_same_weights [OF Cons.prems(1) 1] obtain na where
    3: "validation_step tb n g b = Inr (r, na, ga)" and 4: "same_weights ma na" by auto
  from Cons.IH [OF 4 2] obtain n1 where
    5: "validation_steps tb na ga bs = Inr (rs', n1, g1)" and 6: "same_weights m1 n1" by auto
  show ?case by (simp add: 3 5 6 rs)
qed

lemma validation_step_effect:
  assumes "validation_step tb m g b = Inr (r, m1, g1)"
  shows "forget_stats m1 = forget_stats m" and "training m1 = training m"
    and "parameters m1 = parameters m"
    and "num_batches_tracked (bn1 m1) = num_batches_tracked (bn1 m) + (if training m then 2 else 0)"
    and "num_batches_tracked (bn2 m1) = num_batches_tracked (bn2 m) + (if training m then 2 else 0)"
    and "num_batches_tracked (bn3 m1) = num_batches_tracked (bn3 m) + (if training m then 2 else 0)"
    and "\<not> training m \<Longrightarrow> m1 = m"
proof -
  have m1: "m1 = fst (snd (forward tb m g (fst b)))"
    by (rule validation_step_model [OF assms])
  show "forget_stats m1 = forget_stats m" by (simp add: m1 forget_stats_forward)
  show "training m1 = training m" by (simp add: m1 forward_training)
  show "parameters m1 = parameters m" by (simp add: m1 forward_parameters)
  show "num_batches_tracked (bn1 m1) = num_batches_tracked (bn1 m) + (if training m then 2 else 0)"
    by (simp add: m1 forward_counters)
  show "num_batches_tracked (bn2 m1) = num_batches_tracked (bn2 m) + (if training m then 2 else 0)"
    by (simp add: m1 forward_counters)
  show "num_batches_tracked (bn3 m1) = num_batches_tracked (bn3 m) + (if training m then 2 else 0)"
    by (simp add: m1 forward_counters)
  show "m1 = m" if "\<not> training m"
    using that by (simp add: m1 forward_eval)
qed

lemma validation_steps_effect:
  assumes "validation_steps tb m g bs = Inr (rs, m1, g1)"
  shows "forget_stats m1 = forget_stats m \<and> training m1 = training m
    \<and> parameters m1 = parameters m
    \<and> num_batches_tracked (bn1 m1) = num_batches_tracked (bn1 m) + (if training m then 2 * length bs else 0)
    \<and> num_batches_tracked (bn2 m1) = num_batches_tracked (bn2 m) + (if training m then 2 * length bs else 0)
    \<and> num_batches_tracked (bn3 m1) = num_batches_tracked (bn3 m) + (if training m then 2 * length bs else 0)
    \<and> (training m \<or> m1 = m) \<and> length rs = length bs"
  using assms
proof (induction bs arbitrary: m g rs)
  case Nil
  then show ?case by auto
next
  case (Cons b bs)
  from Cons.prems obtain r ma ga rs' where
    1: "validation_step tb m g b = Inr (r, ma, ga)"
    and 2: "validation_steps tb ma ga bs = Inr (rs', m1, g1)" and rs: "rs = r # rs'"
    by (auto split: sum.splits)
  note e = validation_step_effect [OF 1]
  note ih = Cons.IH [OF 2]
  show ?case
  proof (cases "training m")
    case True
    then show ?thesis using e(1-6) ih rs by simp
  next
    case False
    then have "ma = m" by (rule e(7))
    then show ?thesis using False ih rs by simp
  qed
qed

lemma chunks_nonempty: "c \<in> set (chunks n xs) \<Longrightarrow> c \<noteq> []"
proof (induction n xs rule: chunks.induct)
  case (1 n xs)
  show ?case
  proof (cases "n = 0 \<or> xs = []")
    case True
    then show ?thesis using "1.prems" by (simp add: chunks.simps [of n xs])
  next
    case False
    then have "chunks n xs = take n xs # chunks n (drop n xs)" by (simp add: chunks.simps [of n xs])
    with "1.prems" have "c = take n xs \<or> c \<in> set (chunks n (drop n xs))" by simp
    then show ?thesis using False "1.IH" by auto
  qed
qed


lemma iter_DataLoader_nonempty:
  assumes "b \<in> set (fst (iter_DataLoader tb dl g))"
  shows "fst b \<noteq> []"
proof -
  from assms obtain c ys where c: "b = collate c" "c \<in> set (chunks (dl_batch_size dl) ys)"
    by (auto simp add: iter_DataLoader_def split_def Let_def split: if_splits)
  then have "c \<noteq> []" using chunks_nonempty by blast
  then show ?thesis by (simp add: c(1) collate_def)
qed

lemma iter_DeviceDataLoader_nonempty:
  assumes "b \<in> set (fst (iter_DeviceDataLoader tb l g))"
  shows "fst b \<noteq> []"
proof -
  from assms obtain b' where b': "b' \<in> set (fst (iter_DataLoader tb (ddl_dl l) g))"
    "b = to_device b' (ddl_device l)"
    by (auto simp add: iter_DeviceDataLoader_def split_def Let_def)
  have "fst b = fst b'" by (simp add: b'(2) to_device_def split_def)
  then show ?thesis using iter_DataLoader_nonempty [OF b'(1)] by simp
qed

lemma evaluate_unfold:
  "evaluate tb m g vl =
     (case validation_steps tb m (snd (iter_DeviceDataLoader tb vl g)) (fst (iter_DeviceDataLoader tb vl g)) of
        Inl e \<Rightarrow> Inl e
      | Inr (outputs, m1, g2) \<Rightarrow>
          (case validation_epoch_end outputs of Inl e \<Rightarrow> Inl e | Inr r \<Rightarrow> Inr (r, m1, g2)))"
  by (simp add: evaluate_def split_def Let_def)

lemma validation_epoch_end_nonempty:
  "outputs \<noteq> [] \<Longrightarrow> validation_epoch_end outputs =
     Inr \<lparr>val_loss = sum_list (map val_loss outputs) / real (length outputs),
          val_acc = sum_list (map val_acc outputs) / real (length outputs)\<rparr>"
  by (simp add: validation_epoch_end_def stack_mean_def Let_def)


lemma evaluate_Inr:
  assumes "evaluate tb m g vl = Inr (r, m1, g1)"
  shows "\<exists>outs. validation_steps tb m (snd (iter_DeviceDataLoader tb vl g))
            (fst (iter_DeviceDataLoader tb vl g)) = Inr (outs, m1, g1)
          \<and> validation_epoch_end outs = Inr r"
  using assms by (auto simp add: evaluate_unfold split: sum.splits)

lemma batches_nonempty:
  "\<forall>b\<in>set (fst (iter_DeviceDataLoader tb vl g)). fst b \<noteq> []"
  by (auto dest: iter_DeviceDataLoader_nonempty)

lemma evaluate_ok:
  assumes "fst (iter_DeviceDataLoader tb vl g) \<noteq> []"
  shows "\<exists>r m1 g1. evaluate tb m g vl = Inr (r, m1, g1)"
proof -
  have "\<forall>b\<in>set (fst (iter_DeviceDataLoader tb vl g)). fst b \<noteq> []"
    by (rule batches_nonempty)
  from validation_steps_ok [OF this, of tb m "snd (iter_DeviceDataLoader tb vl g)"]
  obtain outs m1 g1 where
    1: "validation_steps tb m (snd (iter_DeviceDataLoader tb vl g))
          (fst (iter_DeviceDataLoader tb vl g)) = Inr (outs, m1, g1)"
    and 2: "length outs = length (fst (iter_DeviceDataLoader tb vl g))" by auto
  from 2 assms have "outs \<noteq> []" by auto
  then show ?thesis
    using 1 by (simp add: evaluate_unfold validation_epoch_end_nonempty)
qed

lemma evaluate_effect:
  assumes "evaluate tb m g vl = Inr (r, m1, g1)"
  shows "forget_stats m1 = forget_stats m \<and> training m1 = training m
    \<and> parameters m1 = parameters m
    \<and> num_batches_tracked (bn1 m1) = num_batches_tracked (bn1 m)
        + (if training m then 2 * length (fst (iter_DeviceDataLoader tb vl g)) else 0)
    \<and> num_batches_tracked (bn2 m1) = num_batches_tracked (bn2 m)
        + (if training m then 2 * length (fst (iter_DeviceDataLoader tb vl g)) else 0)
    \<and> num_batches_tracked (bn3 m1) = num_batches_tracked (bn3 m)
        + (if training m then 2 * length (fst (iter_DeviceDataLoader tb vl g)) else 0)
    \<and> (training m \<or> m1 = m)"
proof -
  from evaluate_Inr [OF assms] obtain outs where
    "validation_steps tb m (snd (iter_DeviceDataLoader tb vl g))
       (fst (iter_DeviceDataLoader tb vl g)) = Inr (outs, m1, g1)" by auto
  from validation_steps_effect [OF this] show ?thesis by simp
qed

lemma evaluate_same_weights:
  assumes "same_weights m n" and "evaluate tb m g vl = Inr (r, m1, g1)"
  shows "\<exists>n1. evaluate tb n g vl = Inr (r, n1, g1) \<and> same_weights m1 n1"
proof -
  from evaluate_Inr [OF assms(2)] obtain outs where
    1: "validation_steps tb m (snd (iter_DeviceDataLoader tb vl g))
       (fst (iter_DeviceDataLoader tb vl g)) = Inr (outs, m1, g1)"
    and 2: "validation_epoch_end outs = Inr r" by auto
  from validation_steps_same_weights [OF assms(1) 1] obtain n1 where
    3: "validation_steps tb n (snd (iter_DeviceDataLoader tb vl g))
       (fst (iter_DeviceDataLoader tb vl g)) = Inr (outs, n1, g1)"
    and 4: "same_weights m1 n1" by auto
  have "evaluate tb n g vl = Inr (r, n1, g1)"
    by (simp add: evaluate_unfold 3 2)
  then show ?thesis using 4 by blast
qed

lemma same_weights_after_evaluate:
  assumes "evaluate tb m g vl = Inr (r, m1, g1)"
  shows "same_weights m m1"
  using evaluate_effect [OF assms] by (auto simp add: same_weights_def)


lemma demo_batches1:
  "fst (iter_DeviceDataLoader mini (demo_loader [(0, 0)] 2 False) 0) = [([0], [0])]"
  by code_simp


lemma demo_evaluate_ok:
  "\<exists>r m1 g1. evaluate mini demo_model 0 (demo_loader [(0, 0)] 2 False) = Inr (r, m1, g1)"
  by (rule evaluate_ok) (simp add: demo_batches1)

section \<open>Properties of the shapes\<close>







section \<open>Properties of the training loop\<close>



lemma length_parameters: "length (parameters m) = 22"
  by (simp add: parameters_def)

lemma parameters_mapi:
  "parameters (mapi_parameters f m) = map (\<lambda>i. f i (parameters m ! i)) [0..<22]"
proof -
  have "[0..<22] = [0, 1, 2, 3, 4, 5, 6, 7, 8, 9, 10, 11, 12, 13, 14, 15, 16, 17, 18, 19, 20, 21 :: nat]"
    by (simp add: upt_rec eval_nat_numeral)
  then show ?thesis
    by (simp add: parameters_def mapi_parameters_def mapi_Conv2d_def mapi_Linear_def
        mapi_BatchNorm2d_def)
qed

lemma nth_parameters_mapi:
  assumes "i < 22"
  shows "parameters (mapi_parameters f m) ! i = f i (parameters m ! i)"
  using assms by (simp add: parameters_mapi)



lemma training_step_unfold:
  "training_step tb m g b =
     (op_cross_entropy tb (fst (forward tb m g (fst b))) (snd b),
      fst (snd (forward tb m g (fst b))), snd (snd (forward tb m g (fst b))))"
  by (simp add: training_step_def split_def Let_def)

lemma train_batch_unfold:
  "train_batch tb (opt, m, g) b =
     (fst (optimizer_step opt (backward (batch_gradient tb m g b) (fst (snd (forward tb m g (fst b)))))),
      zero_grad (snd (optimizer_step opt (backward (batch_gradient tb m g b) (fst (snd (forward tb m g (fst b))))))),
      snd (snd (forward tb m g (fst b))))"
  by (simp add: train_batch_def training_step_unfold split_def Let_def)








lemma train_batch_optimizer:
  assumes "sgd_momentum opt = 0"
  shows "fst (train_batch tb (opt, m, g) b) = opt"
  using assms by (simp add: train_batch_unfold optimizer_step_def Let_def)







lemma fit_loop_append:
  "fit_loop tb trl vl st (xs @ ys) =
     bind_error (fit_loop tb trl vl st xs) (\<lambda>st1. fit_loop tb trl vl st1 ys)"
proof (induction xs arbitrary: st)
  case Nil
  then show ?case by (simp add: bind_error_def)
next
  case (Cons e xs)
  show ?case
    by (simp add: split_def Let_def Cons.IH bind_error_def split: sum.splits)
qed

lemma fit_loop_step:
  "fit_loop tb trl vl st (e # es) =
     (case evaluate tb
             (fst (snd (train_batches tb (fs_optimizer st, fs_model st, snd (iter_DeviceDataLoader tb trl (fs_rng st)))
                         (fst (iter_DeviceDataLoader tb trl (fs_rng st))))))
             (snd (snd (train_batches tb (fs_optimizer st, fs_model st, snd (iter_DeviceDataLoader tb trl (fs_rng st)))
                         (fst (iter_DeviceDataLoader tb trl (fs_rng st))))))
             vl of
        Inl err \<Rightarrow> Inl err
      | Inr (r, model1, g3) \<Rightarrow>
          fit_loop tb trl vl
            \<lparr>fs_history = fs_history st @ [r],
             fs_printed = fs_printed st @ [(e, r)],
             fs_optimizer = fst (train_batches tb (fs_optimizer st, fs_model st, snd (iter_DeviceDataLoader tb trl (fs_rng st)))
                         (fst (iter_DeviceDataLoader tb trl (fs_rng st)))),
             fs_model = model1, fs_rng = g3\<rparr> es)"
  by (simp add: split_def Let_def epoch_end_def split: sum.splits)

lemma fit_loop_Cons_Inr:
  assumes "fit_loop tb trl vl st (e # es) = Inr st1"
  defines "t \<equiv> train_batches tb (fs_optimizer st, fs_model st, snd (iter_DeviceDataLoader tb trl (fs_rng st)))
                 (fst (iter_DeviceDataLoader tb trl (fs_rng st)))"
  shows "\<exists>r m1 g3. evaluate tb (fst (snd t)) (snd (snd t)) vl = Inr (r, m1, g3)
    \<and> fit_loop tb trl vl
            \<lparr>fs_history = fs_history st @ [r], fs_printed = fs_printed st @ [(e, r)],
             fs_optimizer = fst t, fs_model = m1, fs_rng = g3\<rparr> es = Inr st1"
proof (cases "evaluate tb (fst (snd t)) (snd (snd t)) vl")
  case (Inl err)
  then have "fit_loop tb trl vl st (e # es) = Inl err"
    by (simp only: fit_loop_step t_def sum.case)
  then show ?thesis using assms(1) by simp
next
  case (Inr x)
  obtain r m1 g3 where x: "x = (r, m1, g3)" by (cases x)
  have "fit_loop tb trl vl st (e # es) = fit_loop tb trl vl
            \<lparr>fs_history = fs_history st @ [r], fs_printed = fs_printed st @ [(e, r)],
             fs_optimizer = fst t, fs_model = m1, fs_rng = g3\<rparr> es"
    using Inr unfolding x t_def by (simp only: fit_loop_step sum.case prod.case)
  then show ?thesis using assms(1) Inr x by simp
qed


lemma fit_loop_history:
  assumes "fit_loop tb trl vl st es = Inr st1"
  shows "\<exists>new. fs_history st1 = fs_history st @ new \<and> length new = length es
    \<and> fs_printed st1 = fs_printed st @ zip es new"
  using assms
proof (induction es arbitrary: st)
  case Nil
  then show ?case by simp
next
  case (Cons e es)
  let ?s = "(fs_optimizer st, fs_model st, snd (iter_DeviceDataLoader tb trl (fs_rng st)))"
  let ?t = "train_batches tb ?s (fst (iter_DeviceDataLoader tb trl (fs_rng st)))"
  from fit_loop_Cons_Inr [OF Cons.prems(1)] obtain r m1 g3 where
    rest: "fit_loop tb trl vl
            \<lparr>fs_history = fs_history st @ [r], fs_printed = fs_printed st @ [(e, r)],
             fs_optimizer = fst ?t, fs_model = m1, fs_rng = g3\<rparr> es = Inr st1"
    by blast
  from Cons.IH [OF rest] obtain new where
    "fs_history st1 = (fs_history st @ [r]) @ new" "length new = length es"
    "fs_printed st1 = (fs_printed st @ [(e, r)]) @ zip es new"
    by auto
  then have "fs_history st1 = fs_history st @ (r # new) \<and> length (r # new) = length (e # es)
    \<and> fs_printed st1 = fs_printed st @ zip (e # es) (r # new)"
    by simp
  then show ?case by blast
qed

lemma fit_unfold:
  "fit tb epochs lr m g trl vl opt_func =
     (case opt_func (parameters m) lr of
        Inl e \<Rightarrow> Inl e
      | Inr optimizer \<Rightarrow>
          fit_loop tb trl vl
            \<lparr>fs_history = [], fs_printed = [], fs_optimizer = optimizer, fs_model = m, fs_rng = g\<rparr>
            [0..<epochs])"
  by (simp add: fit_def)

lemma fit_prefix:
  assumes "fit tb n lr m g trl vl opt_func = Inr st" and "j \<le> n"
  shows "\<exists>sj. fit tb j lr m g trl vl opt_func = Inr sj \<and> fit_loop tb trl vl sj [j..<n] = Inr st"
proof -
  from assms(1) obtain opt where o: "opt_func (parameters m) lr = Inr opt"
    by (auto simp add: fit_unfold split: sum.splits)
  let ?st0 = "\<lparr>fs_history = [], fs_printed = [], fs_optimizer = opt, fs_model = m, fs_rng = g\<rparr>"
  have "[0..<n] = [0..<j] @ [j..<n]"
    using assms(2) upt_add_eq_append [of 0 j "n - j"] by simp
  then have "fit_loop tb trl vl ?st0 [0..<n] =
      bind_error (fit_loop tb trl vl ?st0 [0..<j]) (\<lambda>st1. fit_loop tb trl vl st1 [j..<n])"
    by (simp only: fit_loop_append)
  moreover have "fit_loop tb trl vl ?st0 [0..<n] = Inr st"
    using assms(1) by (simp add: fit_unfold o)
  ultimately obtain sj where "fit_loop tb trl vl ?st0 [0..<j] = Inr sj"
    "fit_loop tb trl vl sj [j..<n] = Inr st"
    by (auto simp add: bind_error_def split: sum.splits)
  then show ?thesis by (simp add: fit_unfold o)
qed




lemma fit_Inr_optimizer:
  assumes "fit tb n lr m g trl vl opt_func = Inr st"
  shows "\<exists>opt. opt_func (parameters m) lr = Inr opt
    \<and> fit_loop tb trl vl
         \<lparr>fs_history = [], fs_printed = [], fs_optimizer = opt, fs_model = m, fs_rng = g\<rparr> [0..<n] = Inr st"
  using assms by (auto simp add: fit_unfold split: sum.splits)


lemma fit_loop_ok:
  assumes "\<forall>g. fst (iter_DeviceDataLoader tb vl g) \<noteq> []"
  shows "\<exists>st1. fit_loop tb trl vl st es = Inr st1"
proof (induction es arbitrary: st)
  case Nil
  then show ?case by simp
next
  case (Cons e es)
  let ?t = "train_batches tb (fs_optimizer st, fs_model st, snd (iter_DeviceDataLoader tb trl (fs_rng st)))
              (fst (iter_DeviceDataLoader tb trl (fs_rng st)))"
  from assms have "fst (iter_DeviceDataLoader tb vl (snd (snd ?t))) \<noteq> []" by blast
  from evaluate_ok [OF this, of "fst (snd ?t)"] obtain r m1 g3 where
    ev: "evaluate tb (fst (snd ?t)) (snd (snd ?t)) vl = Inr (r, m1, g3)" by blast
  have "fit_loop tb trl vl st (e # es) = fit_loop tb trl vl
            \<lparr>fs_history = fs_history st @ [r], fs_printed = fs_printed st @ [(e, r)],
             fs_optimizer = fst ?t, fs_model = m1, fs_rng = g3\<rparr> es"
    using ev by (simp only: fit_loop_step sum.case prod.case)
  then show ?case using Cons.IH by simp
qed

lemma fit_ok:
  assumes "opt_func (parameters m) lr = Inr opt"
    and "\<forall>g. fst (iter_DeviceDataLoader tb vl g) \<noteq> []"
  shows "\<exists>st. fit tb epochs lr m g trl vl opt_func = Inr st"
  using fit_loop_ok [OF assms(2)] by (simp add: fit_unfold assms(1))

lemma demo_val_batches:
  "fst (iter_DeviceDataLoader tb (demo_loader [(0, 0)] 2 False) g) = [([0], [0])]"
  by (simp add: iter_DeviceDataLoader_def iter_DataLoader_def demo_loader_def chunks.simps [of 2]
      collate_def to_device_def)

lemma demo_fit_ok:
  "\<exists>st. fit mini epochs (1 / 10) demo_model 0 trl (demo_loader [(0, 0)] 2 False) torch_optim_SGD = Inr st"
proof (rule fit_ok)
  show "torch_optim_SGD (parameters demo_model) (1 / 10)
      = Inr \<lparr>sgd_lr = 1 / 10, sgd_momentum = 0, sgd_state = (\<lambda>i. None)\<rparr>"
    by (simp add: torch_optim_SGD_def SGD_momentum_def)
  show "\<forall>g. fst (iter_DeviceDataLoader mini (demo_loader [(0, 0)] 2 False) g) \<noteq> []"
    by (simp add: demo_val_batches)
qed


lemma demo_train_iter:
  "iter_DeviceDataLoader mini (demo_loader [(0, 0)] 2 True) 0 = ([([0], [0])], 1)"
  by code_simp

section \<open>Facts about the miniature backend\<close>











section \<open>Properties of the history and the optimiser\<close>

lemma fit_history_printed:
  assumes "fit tb n lr m g trl vl opt_func = Inr st"
  shows "length (fs_history st) = n" and "fs_printed st = zip [0..<n] (fs_history st)"
proof -
  from fit_Inr_optimizer [OF assms] obtain opt where
    l: "fit_loop tb trl vl
         \<lparr>fs_history = [], fs_printed = [], fs_optimizer = opt, fs_model = m, fs_rng = g\<rparr> [0..<n] = Inr st"
    by blast
  from fit_loop_history [OF l] show "length (fs_history st) = n"
    and "fs_printed st = zip [0..<n] (fs_history st)" by auto
qed

lemma fit_history_prefix:
  assumes "fit tb n lr m g trl vl opt_func = Inr st" and "k \<le> n"
  shows "\<exists>sk. fit tb k lr m g trl vl opt_func = Inr sk \<and> fs_history sk = take k (fs_history st)"
proof -
  from fit_prefix [OF assms] obtain sk where
    sk: "fit tb k lr m g trl vl opt_func = Inr sk" and r: "fit_loop tb trl vl sk [k..<n] = Inr st"
    by blast
  from fit_loop_history [OF r] obtain new where "fs_history st = fs_history sk @ new" by blast
  moreover have "length (fs_history sk) = k" by (rule fit_history_printed(1) [OF sk])
  ultimately have "fs_history sk = take k (fs_history st)" by simp
  with sk show ?thesis by blast
qed

lemma fit_history_record:
  assumes "fit tb n lr m g trl vl opt_func = Inr st" and "k < n"
  shows "\<exists>sk r m1 g1. fit tb k lr m g trl vl opt_func = Inr sk
    \<and> evaluate tb
         (fst (snd (train_batches tb (fs_optimizer sk, fs_model sk, snd (iter_DeviceDataLoader tb trl (fs_rng sk)))
                      (fst (iter_DeviceDataLoader tb trl (fs_rng sk))))))
         (snd (snd (train_batches tb (fs_optimizer sk, fs_model sk, snd (iter_DeviceDataLoader tb trl (fs_rng sk)))
                      (fst (iter_DeviceDataLoader tb trl (fs_rng sk))))))
         vl = Inr (r, m1, g1)
    \<and> fs_history st ! k = r"
proof -
  from fit_history_prefix [OF assms(1), of "Suc k"] assms(2) obtain s1 where
    s1: "fit tb (Suc k) lr m g trl vl opt_func = Inr s1"
    and h1: "fs_history s1 = take (Suc k) (fs_history st)" by auto
  from fit_prefix [OF s1, of k] obtain sk where
    sk: "fit tb k lr m g trl vl opt_func = Inr sk"
    and r: "fit_loop tb trl vl sk [k..<Suc k] = Inr s1" by auto
  have "[k..<Suc k] = [k]" by simp
  with r have "fit_loop tb trl vl sk [k] = Inr s1" by simp
  from fit_loop_Cons_Inr [OF this] obtain r m1 g3 where
    ev: "evaluate tb
         (fst (snd (train_batches tb (fs_optimizer sk, fs_model sk, snd (iter_DeviceDataLoader tb trl (fs_rng sk)))
                      (fst (iter_DeviceDataLoader tb trl (fs_rng sk))))))
         (snd (snd (train_batches tb (fs_optimizer sk, fs_model sk, snd (iter_DeviceDataLoader tb trl (fs_rng sk)))
                      (fst (iter_DeviceDataLoader tb trl (fs_rng sk))))))
         vl = Inr (r, m1, g3)"
    and e: "fs_history s1 = fs_history sk @ [r]"
    by auto
  have "length (fs_history sk) = k" by (rule fit_history_printed(1) [OF sk])
  then have "fs_history s1 ! k = r" by (auto simp add: e nth_append)
  moreover have "k < length (fs_history st)"
    using assms(2) fit_history_printed(1) [OF assms(1)] by simp
  ultimately have "fs_history st ! k = r" by (simp add: h1)
  with sk ev show ?thesis by blast
qed

lemma p_grad_backward:
  assumes "i < 22"
  shows "p_grad (parameters (backward gs m) ! i) \<noteq> None"
  using assms by (simp add: backward_def nth_parameters_mapi accumulate_def)

lemma train_batch_state:
  fixes tb :: "('t::real_vector, 'g) backend"
  assumes "sgd_momentum opt \<noteq> 0" and "i < 22"
  shows "sgd_state (fst (train_batch tb (opt, m, g) b)) i \<noteq> None"
proof -
  let ?m2 = "backward (batch_gradient tb m g b) (fst (snd (forward tb m g (fst b))))"
  from p_grad_backward [OF assms(2)] obtain d where
    d: "p_grad (parameters ?m2 ! i) = Some d" by blast
  then have "sgd_direction opt i (parameters ?m2 ! i) \<noteq> None"
    by (simp add: sgd_direction_def split: option.splits)
  then show ?thesis
    using assms by (auto simp add: train_batch_unfold optimizer_step_def Let_def length_parameters
        split: option.splits)
qed

lemma train_batches_optimizer_const:
  fixes tb :: "('t::real_vector, 'g) backend"
  assumes "sgd_momentum (fst s) = 0"
  shows "fst (train_batches tb s bs) = fst s"
  using assms
proof (induction bs arbitrary: s)
  case Nil
  then show ?case by simp
next
  case (Cons b bs)
  obtain opt m g where s: "s = (opt, m, g)" by (cases s)
  have 1: "fst (train_batch tb s b) = fst s"
    using Cons.prems by (simp add: s train_batch_optimizer)
  then have "sgd_momentum (fst (train_batch tb s b)) = 0" using Cons.prems by simp
  from Cons.IH [OF this] 1 show ?case by simp
qed

lemma fit_loop_optimizer_const:
  fixes tb :: "('t::real_vector, 'g) backend"
  assumes "fit_loop tb trl vl st es = Inr st1" and "sgd_momentum (fs_optimizer st) = 0"
  shows "fs_optimizer st1 = fs_optimizer st"
  using assms
proof (induction es arbitrary: st)
  case Nil
  then show ?case by simp
next
  case (Cons e es)
  let ?s = "(fs_optimizer st, fs_model st, snd (iter_DeviceDataLoader tb trl (fs_rng st)))"
  let ?t = "train_batches tb ?s (fst (iter_DeviceDataLoader tb trl (fs_rng st)))"
  have t: "fst ?t = fs_optimizer st"
    using train_batches_optimizer_const [of ?s tb] Cons.prems(2) by simp
  from fit_loop_Cons_Inr [OF Cons.prems(1)] obtain r m1 g3 where
    rest: "fit_loop tb trl vl
            \<lparr>fs_history = fs_history st @ [r], fs_printed = fs_printed st @ [(e, r)],
             fs_optimizer = fst ?t, fs_model = m1, fs_rng = g3\<rparr> es = Inr st1"
    by blast
  have "sgd_momentum (fs_optimizer \<lparr>fs_history = fs_history st @ [r], fs_printed = fs_printed st @ [(e, r)],
             fs_optimizer = fst ?t, fs_model = m1, fs_rng = g3\<rparr>) = 0"
    using t Cons.prems(2) by simp
  from Cons.IH [OF rest this] t show ?case by simp
qed

lemma SGD_momentum_Inr:
  assumes "SGD_momentum mu ps lr = Inr opt"
  shows "opt = \<lparr>sgd_lr = lr, sgd_momentum = mu, sgd_state = (\<lambda>i. None)\<rparr>"
  using assms by (auto simp add: SGD_momentum_def split: if_splits)

lemma demo_fit_momentum_ok:
  assumes "0 \<le> lr" and "0 \<le> mu"
  shows "\<exists>st. fit mini epochs lr m g trl (demo_loader [(0, 0)] 2 False) (SGD_momentum mu) = Inr st"
proof (rule fit_ok)
  show "SGD_momentum mu (parameters m) lr = Inr \<lparr>sgd_lr = lr, sgd_momentum = mu, sgd_state = (\<lambda>i. None)\<rparr>"
    using assms by (simp add: SGD_momentum_def)
  show "\<forall>g. fst (iter_DeviceDataLoader mini (demo_loader [(0, 0)] 2 False) g) \<noteq> []"
    by (simp add: demo_val_batches)
qed

section \<open>Properties of the split and the script\<close>

lemma py_slice_prefix:
  assumes "k \<le> length xs"
  shows "py_slice xs 0 (int k) = take k xs"
  using assms by (simp add: py_slice_def Let_def min_def)

lemma py_slice_suffix:
  assumes "k \<le> length xs"
  shows "py_slice xs (int k) (int (length xs)) = drop k xs"
  using assms by (simp add: py_slice_def Let_def min_def)

lemma permutation_length:
  assumes "distinct p" and "set p = {0..<n}"
  shows "length p = n"
  using assms distinct_card [of p] by simp

lemma split_dataset_split:
  fixes tb :: "('t, 'g) backend" and dataset :: "'t sample list"
  defines "perm \<equiv> fst (op_randperm tb (op_manual_seed tb 43) (length dataset))"
  assumes "5000 \<le> length dataset" and "distinct perm" and "set perm = {0..<length dataset}"
  shows "split_dataset tb dataset =
     Inr ((\<lparr>sub_dataset = dataset, sub_indices = take (length dataset - 5000) perm\<rparr>,
           \<lparr>sub_dataset = dataset, sub_indices = drop (length dataset - 5000) perm\<rparr>),
          snd (op_randperm tb (op_manual_seed tb 43) (length dataset)))"
proof -
  let ?n = "length dataset"
  have len: "length perm = ?n" by (rule permutation_length [OF assms(3,4)])
  have ts: "train_size dataset = int (?n - 5000)"
    using assms(2) by (simp add: train_size_def val_size_def)
  have sum: "sum_list [train_size dataset, val_size] = int ?n"
    by (simp add: train_size_def val_size_def)
  have n: "nat (int ?n) = ?n" by simp
  have s1: "py_slice perm 0 (int (?n - 5000)) = take (?n - 5000) perm"
    by (rule py_slice_prefix) (simp add: len)
  have "int (?n - 5000) + 5000 = int (length perm)" using assms(2) len by simp
  then have s2: "py_slice perm (int (?n - 5000)) (int (?n - 5000) + 5000) = drop (?n - 5000) perm"
    using py_slice_suffix [of "?n - 5000" perm] len by simp
  have "split_slices perm 0 [train_size dataset, val_size]
      = [take (?n - 5000) perm, drop (?n - 5000) perm]"
    by (simp add: ts val_size_def s1 s2)
  then have "random_split tb (op_manual_seed tb 43) dataset [train_size dataset, val_size]
      = Inr ([\<lparr>sub_dataset = dataset, sub_indices = take (?n - 5000) perm\<rparr>,
              \<lparr>sub_dataset = dataset, sub_indices = drop (?n - 5000) perm\<rparr>],
             snd (op_randperm tb (op_manual_seed tb 43) ?n))"
    unfolding random_split_def sum n by (simp add: split_def Let_def perm_def)
  then show ?thesis
    by (simp add: split_dataset_def bind_error_def Let_def)
qed

lemma mini_randperm: "fst (op_randperm mini g n) = rev [0..<n]"
  by (simp add: mini_def)














section \<open>Claims about the evaluation\<close>



text \<open>
  Claim C2, as stated: two passes of \<open>evaluate\<close> in succession over the same loader, with
  no training step between them, return the same metrics. The model is in training mode
  whenever the script evaluates it, so dropout draws from the generator in every forward
  pass, and the second pass continues from the generator state the first one left. On the
  miniature backend, over one batch of one sample, the first pass returns loss 0 and
  accuracy 1 and the second loss 4 and accuracy 0.
\<close>

theorem evaluate_twice_counterexample:
  "case evaluate mini demo_model 0 (demo_loader [(0, 0)] 2 False) of
     Inl e \<Rightarrow> False
   | Inr (r1, m1, g1) \<Rightarrow>
       (case evaluate mini m1 g1 (demo_loader [(0, 0)] 2 False) of
          Inl e \<Rightarrow> False
        | Inr (r2, m2, g2) \<Rightarrow>
            r1 = \<lparr>val_loss = 0, val_acc = 1\<rparr> \<and> r2 = \<lparr>val_loss = 4, val_acc = 0\<rparr> \<and> r1 \<noteq> r2)"
  by code_simp

text \<open>
  Claim C2, amended: a second pass of \<open>evaluate\<close> over the same loader that starts from the
  model the first pass left and from the generator state the first pass started from
  returns the same metrics and ends in the same generator state. What the first pass
  changed in the model, the running statistics of batch normalisation, has no influence
  on the metrics.
\<close>

theorem evaluate_twice_same_generator:
  fixes tb :: "('t::zero, 'g) backend"
  assumes "evaluate tb m g vl = Inr (r, m1, g1)"
  shows "\<exists>m2. evaluate tb m1 g vl = Inr (r, m2, g1)"
  using evaluate_same_weights [OF same_weights_after_evaluate [OF assms] assms] by blast

theorem evaluate_twice_same_generator_witness:
  "\<exists>r m1 g1 m2.
     evaluate mini demo_model 0 (demo_loader [(0, 0)] 2 False) = Inr (r, m1, g1)
     \<and> evaluate mini m1 0 (demo_loader [(0, 0)] 2 False) = Inr (r, m2, g1)"
proof -
  from demo_evaluate_ok obtain r m1 g1 where
    1: "evaluate mini demo_model 0 (demo_loader [(0, 0)] 2 False) = Inr (r, m1, g1)" by blast
  from evaluate_twice_same_generator [OF 1] obtain m2 where
    "evaluate mini m1 0 (demo_loader [(0, 0)] 2 False) = Inr (r, m2, g1)" by blast
  with 1 show ?thesis by blast
qed

text \<open>
  Claim C3, as stated: the model after \<open>evaluate\<close> equals the model before. In training
  mode every forward pass moves the running statistics of the three batch normalisations
  and counts the batch, and \<open>evaluate\<close> runs the model in the mode it finds it in: the
  model built by the constructor is changed by one pass over one batch.
\<close>

theorem evaluate_mutates_counterexample:
  "case evaluate mini demo_model 0 (demo_loader [(0, 0)] 2 False) of
     Inl e \<Rightarrow> False
   | Inr (r, m1, g1) \<Rightarrow>
       m1 \<noteq> demo_model
       \<and> num_batches_tracked (bn1 demo_model) = 0 \<and> num_batches_tracked (bn1 m1) = 2"
  by code_simp

text \<open>
  Claim C3, amended: \<open>evaluate\<close> leaves the mode, the 22 parameters (the convolution
  kernels and biases, the weights and biases of the linear layers, the weights and biases
  of the batch normalisations) with their gradients, and every other field of the model
  but the running statistics as they were. For a model in training mode the batch counter
  of each batch normalisation grows by two for every batch of the loader; a model in
  evaluation mode is returned unchanged.
\<close>

theorem evaluate_frame:
  fixes tb :: "('t::zero, 'g) backend"
  assumes "evaluate tb m g vl = Inr (r, m1, g1)"
  shows "parameters m1 = parameters m \<and> training m1 = training m
    \<and> forget_stats m1 = forget_stats m
    \<and> (training m \<longrightarrow>
         num_batches_tracked (bn1 m1) = num_batches_tracked (bn1 m) + 2 * length (fst (iter_DeviceDataLoader tb vl g))
       \<and> num_batches_tracked (bn2 m1) = num_batches_tracked (bn2 m) + 2 * length (fst (iter_DeviceDataLoader tb vl g))
       \<and> num_batches_tracked (bn3 m1) = num_batches_tracked (bn3 m) + 2 * length (fst (iter_DeviceDataLoader tb vl g)))
    \<and> (\<not> training m \<longrightarrow> m1 = m)"
  using evaluate_effect [OF assms] by auto

theorem evaluate_frame_witness:
  "\<exists>r m1 g1.
     evaluate mini demo_model 0 (demo_loader [(0, 0)] 2 False) = Inr (r, m1, g1)
     \<and> parameters m1 = parameters demo_model \<and> training m1
     \<and> forget_stats m1 = forget_stats demo_model
     \<and> num_batches_tracked (bn1 m1) = 2 \<and> num_batches_tracked (bn2 m1) = 2
     \<and> num_batches_tracked (bn3 m1) = 2"
proof -
  from demo_evaluate_ok obtain r m1 g1 where
    1: "evaluate mini demo_model 0 (demo_loader [(0, 0)] 2 False) = Inr (r, m1, g1)" by blast
  have t: "training demo_model" by (simp add: demo_model_def new_CIFAR10Model_def)
  have n: "num_batches_tracked (bn1 demo_model) = 0" "num_batches_tracked (bn2 demo_model) = 0"
    "num_batches_tracked (bn3 demo_model) = 0"
    by (simp_all add: demo_model_def new_CIFAR10Model_def nn_BatchNorm2d_def)
  from evaluate_frame [OF 1] t n have
    "parameters m1 = parameters demo_model \<and> training m1
     \<and> forget_stats m1 = forget_stats demo_model
     \<and> num_batches_tracked (bn1 m1) = 2 \<and> num_batches_tracked (bn2 m1) = 2
     \<and> num_batches_tracked (bn3 m1) = 2"
    by (simp add: demo_batches1)
  with 1 show ?thesis by blast
qed

section \<open>Claims about the architecture\<close>



section \<open>Claims about the training step\<close>






section \<open>Claims about the history and the phases\<close>

text \<open>
  Claim C9, as stated: every record of the history contains the epoch index, the
  validation loss and the validation accuracy. A record is the dictionary that
  \<open>validation_epoch_end\<close> returns, with its two keys; the epoch number goes to the printed
  line only. Two epochs with the same metrics leave two equal records: in a run of two
  epochs with an empty training loader the printed lines carry the numbers 0 and 1, and
  the records at positions 0 and 1 of the history are the same record.
\<close>

theorem history_record_counterexample:
  "case fit mini 2 (1 / 10) flat_model 0 (demo_loader [] 2 True) (demo_loader [(0, 0)] 2 False) torch_optim_SGD of
     Inl e \<Rightarrow> False
   | Inr st \<Rightarrow> fs_printed st = [(0, \<lparr>val_loss = 1, val_acc = 0\<rparr>), (1, \<lparr>val_loss = 1, val_acc = 0\<rparr>)]
       \<and> fs_history st = [\<lparr>val_loss = 1, val_acc = 0\<rparr>, \<lparr>val_loss = 1, val_acc = 0\<rparr>]
       \<and> fs_history st ! 0 = fs_history st ! 1"
  by code_simp

text \<open>
  Claim C9, amended: a call of \<open>fit\<close> that returns after \<open>n\<close> epochs returns a history of
  exactly \<open>n\<close> records of validation loss and validation accuracy, and has printed the
  epoch numbers \<open>0, ..., n - 1\<close> next to them in this order. The history only grows at its
  end: for every \<open>k \<le> n\<close> the run of \<open>k\<close> epochs from the same start returns, and its
  history is the first \<open>k\<close> records of the history of \<open>n\<close> epochs. The record at position
  \<open>k\<close> is the result of \<open>evaluate\<close> on the model as the training phase of epoch \<open>k\<close> left
  it.
\<close>

theorem fit_history_append_only:
  assumes "fit tb n lr m g trl vl opt_func = Inr st"
  shows "length (fs_history st) = n
    \<and> fs_printed st = zip [0..<n] (fs_history st)
    \<and> (\<forall>k\<le>n. \<exists>sk. fit tb k lr m g trl vl opt_func = Inr sk \<and> fs_history sk = take k (fs_history st))
    \<and> (\<forall>k<n. \<exists>sk r m1 g1. fit tb k lr m g trl vl opt_func = Inr sk
          \<and> evaluate tb
               (fst (snd (train_batches tb (fs_optimizer sk, fs_model sk, snd (iter_DeviceDataLoader tb trl (fs_rng sk)))
                      (fst (iter_DeviceDataLoader tb trl (fs_rng sk))))))
               (snd (snd (train_batches tb (fs_optimizer sk, fs_model sk, snd (iter_DeviceDataLoader tb trl (fs_rng sk)))
                      (fst (iter_DeviceDataLoader tb trl (fs_rng sk))))))
               vl = Inr (r, m1, g1)
          \<and> fs_history st ! k = r)"
  using fit_history_printed [OF assms] fit_history_prefix [OF assms] fit_history_record [OF assms]
  by blast

theorem fit_history_append_only_witness:
  "\<exists>st. fit mini 2 (1 / 10) demo_model 0 (demo_loader [(0, 0)] 2 True) (demo_loader [(0, 0)] 2 False)
          torch_optim_SGD = Inr st
     \<and> length (fs_history st) = 2
     \<and> fs_printed st = zip [0..<2] (fs_history st)
     \<and> (\<exists>sk. fit mini 1 (1 / 10) demo_model 0 (demo_loader [(0, 0)] 2 True) (demo_loader [(0, 0)] 2 False)
                torch_optim_SGD = Inr sk
           \<and> fs_history sk = take 1 (fs_history st))"
proof -
  from demo_fit_ok [of 2 "demo_loader [(0, 0)] 2 True"] obtain st where
    st: "fit mini 2 (1 / 10) demo_model 0 (demo_loader [(0, 0)] 2 True) (demo_loader [(0, 0)] 2 False)
          torch_optim_SGD = Inr st" by blast
  note h = fit_history_append_only [OF st]
  from h have "length (fs_history st) = 2" "fs_printed st = zip [0..<2] (fs_history st)"
    by blast+
  moreover from h have "\<exists>sk. fit mini 1 (1 / 10) demo_model 0 (demo_loader [(0, 0)] 2 True)
        (demo_loader [(0, 0)] 2 False) torch_optim_SGD = Inr sk
      \<and> fs_history sk = take 1 (fs_history st)"
    by (elim conjE allE [of _ 1]) simp
  ultimately show ?thesis using st by blast
qed

text \<open>
  Claim C1, as stated: the state of the optimiser at the start of a phase is the state of
  the optimiser at the end of the phase before. Every call of \<open>fit\<close> builds its optimiser
  anew. With an \<open>opt_func\<close> that builds the optimiser with momentum 9/10, the optimiser of a
  first phase of one epoch over one batch ends with a momentum buffer for the parameter at
  position 15, and the optimiser the second phase is started with has none.
\<close>

theorem optimizer_state_counterexample:
  "\<exists>st1 opt2.
     fit mini 1 (1 / 10) demo_model 0 (demo_loader [(0, 0)] 2 True) (demo_loader [(0, 0)] 2 False)
       (SGD_momentum (9 / 10)) = Inr st1
     \<and> SGD_momentum (9 / 10) (parameters (fs_model st1)) (1 / 100) = Inr opt2
     \<and> sgd_state opt2 15 = None
     \<and> sgd_state (fs_optimizer st1) 15 \<noteq> None"
proof -
  let ?trl = "demo_loader [(0, 0)] 2 True" and ?vl = "demo_loader [(0, 0)] 2 False"
  from demo_fit_momentum_ok [of "1 / 10" "9 / 10" 1 demo_model 0 ?trl] obtain st1 where
    1: "fit mini 1 (1 / 10) demo_model 0 ?trl ?vl (SGD_momentum (9 / 10)) = Inr st1" by auto
  from fit_Inr_optimizer [OF 1] obtain o1 where
    o1: "SGD_momentum (9 / 10) (parameters demo_model) (1 / 10) = Inr o1"
    and l1: "fit_loop mini ?trl ?vl
         \<lparr>fs_history = [], fs_printed = [], fs_optimizer = o1, fs_model = demo_model, fs_rng = 0\<rparr> [0..<1] = Inr st1"
    by blast
  have m1: "sgd_momentum o1 \<noteq> 0" using SGD_momentum_Inr [OF o1] by simp
  have "[0..<1] = [0::nat]" by simp
  with l1 have "fit_loop mini ?trl ?vl
         \<lparr>fs_history = [], fs_printed = [], fs_optimizer = o1, fs_model = demo_model, fs_rng = 0\<rparr> [0] = Inr st1"
    by simp
  from fit_loop_Cons_Inr [OF this] have
    "fs_optimizer st1 = fst (train_batches mini (o1, demo_model, snd (iter_DeviceDataLoader mini ?trl 0))
        (fst (iter_DeviceDataLoader mini ?trl 0)))"
    by auto
  then have "fs_optimizer st1 = fst (train_batch mini (o1, demo_model, 1) ([0], [0]))"
    by (simp add: demo_train_iter)
  then have a: "sgd_state (fs_optimizer st1) 15 \<noteq> None"
    using train_batch_state [OF m1, of 15 mini demo_model 1 "([0], [0])"] by simp
  have b: "SGD_momentum (9 / 10) (parameters (fs_model st1)) (1 / 100)
      = Inr \<lparr>sgd_lr = 1 / 100, sgd_momentum = 9 / 10, sgd_state = (\<lambda>i. None)\<rparr>"
    by (simp add: SGD_momentum_def)
  from 1 a b show ?thesis by auto
qed

text \<open>
  Claim C1, amended: when a second call of \<open>fit\<close> follows a first on the same model, the
  second call runs its loop from the model and the generator the first call left, with an
  empty history and with a new optimiser that has the learning rate of the second call and
  no momentum buffer; nothing of the optimiser of the first call enters. With the default
  optimiser (no momentum) the optimiser has no buffers at any time, and differs between
  the phases in its learning rate only.
\<close>

theorem fit_fresh_optimizer:
  fixes tb :: "('t::real_vector, 'g) backend"
  assumes "fit tb e1 lr1 m g trl vl (SGD_momentum mu) = Inr st1"
    and "fit tb e2 lr2 (fs_model st1) (fs_rng st1) trl vl (SGD_momentum mu) = Inr st2"
  shows "fit_loop tb trl vl
           \<lparr>fs_history = [], fs_printed = [],
            fs_optimizer = \<lparr>sgd_lr = lr2, sgd_momentum = mu, sgd_state = (\<lambda>i. None)\<rparr>,
            fs_model = fs_model st1, fs_rng = fs_rng st1\<rparr> [0..<e2] = Inr st2
    \<and> (mu = 0 \<longrightarrow> fs_optimizer st1 = \<lparr>sgd_lr = lr1, sgd_momentum = 0, sgd_state = (\<lambda>i. None)\<rparr>
          \<and> fs_optimizer st2 = \<lparr>sgd_lr = lr2, sgd_momentum = 0, sgd_state = (\<lambda>i. None)\<rparr>)"
proof -
  from fit_Inr_optimizer [OF assms(1)] obtain o1 where
    o1: "SGD_momentum mu (parameters m) lr1 = Inr o1"
    and l1: "fit_loop tb trl vl
         \<lparr>fs_history = [], fs_printed = [], fs_optimizer = o1, fs_model = m, fs_rng = g\<rparr> [0..<e1] = Inr st1"
    by blast
  from fit_Inr_optimizer [OF assms(2)] obtain o2 where
    o2: "SGD_momentum mu (parameters (fs_model st1)) lr2 = Inr o2"
    and l2: "fit_loop tb trl vl
         \<lparr>fs_history = [], fs_printed = [], fs_optimizer = o2, fs_model = fs_model st1, fs_rng = fs_rng st1\<rparr>
         [0..<e2] = Inr st2"
    by blast
  note e1 = SGD_momentum_Inr [OF o1] and e2 = SGD_momentum_Inr [OF o2]
  have a: "fit_loop tb trl vl
           \<lparr>fs_history = [], fs_printed = [],
            fs_optimizer = \<lparr>sgd_lr = lr2, sgd_momentum = mu, sgd_state = (\<lambda>i. None)\<rparr>,
            fs_model = fs_model st1, fs_rng = fs_rng st1\<rparr> [0..<e2] = Inr st2"
    using l2 by (simp only: e2)
  have b: "fs_optimizer st1 = \<lparr>sgd_lr = lr1, sgd_momentum = 0, sgd_state = (\<lambda>i. None)\<rparr>
          \<and> fs_optimizer st2 = \<lparr>sgd_lr = lr2, sgd_momentum = 0, sgd_state = (\<lambda>i. None)\<rparr>" if "mu = 0"
    using fit_loop_optimizer_const [OF l1] fit_loop_optimizer_const [OF l2] that
    by (simp add: e1 e2)
  from a b show ?thesis by blast
qed

theorem fit_fresh_optimizer_witness:
  "\<exists>st1 st2.
     fit mini 1 (1 / 10) demo_model 0 (demo_loader [(0, 0)] 2 True) (demo_loader [(0, 0)] 2 False)
       (SGD_momentum 0) = Inr st1
     \<and> fit mini 1 (1 / 100) (fs_model st1) (fs_rng st1) (demo_loader [(0, 0)] 2 True)
         (demo_loader [(0, 0)] 2 False) (SGD_momentum 0) = Inr st2
     \<and> fit_loop mini (demo_loader [(0, 0)] 2 True) (demo_loader [(0, 0)] 2 False)
           \<lparr>fs_history = [], fs_printed = [],
            fs_optimizer = \<lparr>sgd_lr = 1 / 100, sgd_momentum = 0, sgd_state = (\<lambda>i. None)\<rparr>,
            fs_model = fs_model st1, fs_rng = fs_rng st1\<rparr> [0..<1] = Inr st2
     \<and> fs_optimizer st1 = \<lparr>sgd_lr = 1 / 10, sgd_momentum = 0, sgd_state = (\<lambda>i. None)\<rparr>
     \<and> fs_optimizer st2 = \<lparr>sgd_lr = 1 / 100, sgd_momentum = 0, sgd_state = (\<lambda>i. None)\<rparr>"
proof -
  from demo_fit_momentum_ok [of "1 / 10" 0 1 demo_model 0 "demo_loader [(0, 0)] 2 True"] obtain st1 where
    1: "fit mini 1 (1 / 10) demo_model 0 (demo_loader [(0, 0)] 2 True) (demo_loader [(0, 0)] 2 False)
       (SGD_momentum 0) = Inr st1" by auto
  from demo_fit_momentum_ok [of "1 / 100" 0 1 "fs_model st1" "fs_rng st1" "demo_loader [(0, 0)] 2 True"]
  obtain st2 where
    2: "fit mini 1 (1 / 100) (fs_model st1) (fs_rng st1) (demo_loader [(0, 0)] 2 True)
         (demo_loader [(0, 0)] 2 False) (SGD_momentum 0) = Inr st2" by auto
  from fit_fresh_optimizer [OF 1 2] 1 2 show ?thesis by blast
qed

section \<open>Claims about the split and the hyperparameters\<close>

text \<open>
  Claim C6. For a corpus of 50000 samples, if the permutation the framework draws after
  the generator was seeded with 43 is a permutation of the positions \<open>0, ..., 49999\<close>, the
  split of the script succeeds; the validation part has 5000 positions and the training
  part 45000; the two sizes add up to the size of the corpus; no position is in both
  parts and every position is in one of them; and both parts are views of the corpus.
\<close>

theorem split_sizes_disjoint:
  fixes tb :: "('t, 'g) backend" and dataset :: "'t sample list"
  defines "perm \<equiv> fst (op_randperm tb (op_manual_seed tb 43) (length dataset))"
  assumes "length dataset = 50000" and "distinct perm" and "set perm = {0..<length dataset}"
  shows "\<exists>train_ds val_ds g1.
       split_dataset tb dataset = Inr ((train_ds, val_ds), g1)
     \<and> len_Subset val_ds = 5000 \<and> len_Subset train_ds = 45000
     \<and> len_Subset train_ds + len_Subset val_ds = length dataset
     \<and> set (sub_indices train_ds) \<inter> set (sub_indices val_ds) = {}
     \<and> set (sub_indices train_ds) \<union> set (sub_indices val_ds) = {0..<length dataset}
     \<and> distinct (sub_indices train_ds) \<and> distinct (sub_indices val_ds)
     \<and> sub_dataset train_ds = dataset \<and> sub_dataset val_ds = dataset"
proof -
  have len: "length perm = 50000"
    using permutation_length [OF assms(3,4)] assms(2) by simp
  have big: "5000 \<le> length dataset" using assms(2) by simp
  note s = split_dataset_split [OF big assms(3,4) [unfolded perm_def], folded perm_def]
  let ?tr = "\<lparr>sub_dataset = dataset, sub_indices = take (length dataset - 5000) perm\<rparr>"
  let ?va = "\<lparr>sub_dataset = dataset, sub_indices = drop (length dataset - 5000) perm\<rparr>"
  have d: "set (take 45000 perm) \<inter> set (drop 45000 perm) = {}"
    by (rule set_take_disj_set_drop_if_distinct [OF assms(3)]) simp
  have u: "set (take 45000 perm) \<union> set (drop 45000 perm) = {0..<length dataset}"
    using assms(4) set_append [of "take 45000 perm" "drop 45000 perm"] by simp
  have "len_Subset ?va = 5000 \<and> len_Subset ?tr = 45000
     \<and> len_Subset ?tr + len_Subset ?va = length dataset
     \<and> set (sub_indices ?tr) \<inter> set (sub_indices ?va) = {}
     \<and> set (sub_indices ?tr) \<union> set (sub_indices ?va) = {0..<length dataset}
     \<and> distinct (sub_indices ?tr) \<and> distinct (sub_indices ?va)
     \<and> sub_dataset ?tr = dataset \<and> sub_dataset ?va = dataset"
    using d u assms(3) by (simp add: len_Subset_def len assms(2))
  with s show ?thesis by blast
qed

theorem split_sizes_disjoint_witness:
  "\<exists>train_ds val_ds g1.
       split_dataset mini (replicate 50000 (0, 0)) = Inr ((train_ds, val_ds), g1)
     \<and> len_Subset val_ds = 5000 \<and> len_Subset train_ds = 45000
     \<and> len_Subset train_ds + len_Subset val_ds = 50000
     \<and> set (sub_indices train_ds) \<inter> set (sub_indices val_ds) = {}
     \<and> set (sub_indices train_ds) \<union> set (sub_indices val_ds) = {0..<50000}"
proof -
  have 1: "length (replicate 50000 (0 :: real, 0 :: nat)) = 50000" by simp
  have 2: "distinct (fst (op_randperm mini (op_manual_seed mini 43) (length (replicate 50000 (0 :: real, 0 :: nat)))))"
    by (simp add: mini_randperm)
  have 3: "set (fst (op_randperm mini (op_manual_seed mini 43) (length (replicate 50000 (0 :: real, 0 :: nat)))))
      = {0..<length (replicate 50000 (0 :: real, 0 :: nat))}"
    by (simp add: mini_randperm)
  from split_sizes_disjoint [OF 1 2 3] show ?thesis by (simp only: 1) blast
qed




end
